theory Spec2Isabelle
  imports Complex_Main "HOL-Library.Word"
begin

unbundle bit_operations_syntax

section \<open>The control-room monitor (application/app.c)\<close>

text \<open>
  A shallow embedding of \<^verbatim>\<open>app.c\<close>: the three sensor readers
  (\<^verbatim>\<open>ds18b20_read_temp_float\<close>, \<^verbatim>\<open>gp2y_read_dust_output_voltage_float\<close>,
  \<^verbatim>\<open>hsm_read_humidity_float\<close>), the store \<^verbatim>\<open>store_data_to_db\<close> and \<^verbatim>\<open>main\<close>
  (start-up and the polling state machine).

  Conventions of the embedding:
  \<^item> \<^verbatim>\<open>uint8_t\<close>, \<^verbatim>\<open>uint16_t\<close> and \<^verbatim>\<open>int16_t\<close> are words of that width; a conversion
    to a narrower type keeps the low bits (as gcc does).
  \<^item> \<^verbatim>\<open>float\<close> and \<^verbatim>\<open>double\<close> values are real numbers: the arithmetic of the curves is
    exact here, rounding to the machine formats is not part of the model. (The
    temperature scaling is exact in C as well: a 16-bit integer times \<open>2\<^sup>-\<^sup>4\<close> is
    representable in a \<^verbatim>\<open>float\<close>.)
  \<^item> The mraa library and SQLite are outside the repository. Each of their calls that
    returns something is answered by the environment: a field of \<open>env\<close> holds the
    answers still to come, the next one at index 0, and a call consumes it. What the
    program does to the outside (handles held, commands sent on the bus, rows inserted)
    is recorded in \<open>env\<close> as well.
  \<^item> \<^verbatim>\<open>printf\<close>, \<^verbatim>\<open>sleep\<close> and \<^verbatim>\<open>usleep\<close> change no value of the program and are
    left out.
  \<^item> The \<^verbatim>\<open>assert(NULL != ...)\<close> checks of the readers are on handles that \<^verbatim>\<open>main\<close>
    has already compared with \<^verbatim>\<open>NULL\<close> before its loop; the readers are modelled for
    such handles.
\<close>

subsection \<open>Types and constants\<close>

type_synonym uint8_t = "8 word"
type_synonym uint16_t = "16 word"
type_synonym int16_t = "16 word"

text \<open>The result codes of mraa that the program tests, and one value for every other code.\<close>

datatype mraa_result_t =
    MRAA_SUCCESS
  | MRAA_ERROR_UART_OW_NO_DEVICES
  | MRAA_ERROR_UART_OW_DATA_ERROR
  | MRAA_ERROR_OTHER

text \<open>
  What SQLite and \<^verbatim>\<open>malloc\<close> answer during one call of \<^verbatim>\<open>store_data_to_db\<close>:
  \<^verbatim>\<open>sqlite3_open\<close> fails, or \<^verbatim>\<open>malloc\<close> returns \<^verbatim>\<open>NULL\<close>, or \<^verbatim>\<open>sqlite3_exec\<close> fails, or
  all three succeed.
\<close>

datatype db_outcome = DB_OPEN_FAILED | DB_MALLOC_FAILED | DB_EXEC_FAILED | DB_OK

definition SUCCESS :: uint8_t where
  "SUCCESS = 1"

definition FAIL :: uint8_t where
  "FAIL = 0"

definition NEW_SEARCH :: uint8_t where
  "NEW_SEARCH = 1"

definition CONTINUE_WITH_PREV_SEARCH :: uint8_t where
  "CONTINUE_WITH_PREV_SEARCH = 0"

definition CMD_READ_SCRATCHPAD :: uint8_t where
  "CMD_READ_SCRATCHPAD = 0xBE"

definition CMD_START_TEMP_CONV :: uint8_t where
  "CMD_START_TEMP_CONV = 0x44"

text \<open>\<^verbatim>\<open>MRAA_UART_OW_ROMCODE_SIZE\<close>: the 8 bytes of a ROM code.\<close>

definition DS18B20_ADDR_LEN :: nat where
  "DS18B20_ADDR_LEN = 8"

definition NUM_OF_SENSORS :: int where
  "NUM_OF_SENSORS = 2"

text \<open>
  \<^verbatim>\<open>app_states_t\<close>: a C enumeration, so an \<^verbatim>\<open>int\<close>; the program also stores
  \<^verbatim>\<open>WAIT + 1\<close> in it, which is no enumerator and selects the \<^verbatim>\<open>default\<close> case.
\<close>

type_synonym app_states_t = int

definition NONE :: app_states_t where
  "NONE = 0"

definition START_CONV :: app_states_t where
  "START_CONV = 1"

definition WAIT_TILL_CONV_FINISHED :: app_states_t where
  "WAIT_TILL_CONV_FINISHED = 2"

definition READ_TEMP :: app_states_t where
  "READ_TEMP = 3"

definition READ_DUST_CONCENTRATION :: app_states_t where
  "READ_DUST_CONCENTRATION = 4"

definition READ_HUMIDITY :: app_states_t where
  "READ_HUMIDITY = 5"

definition WAIT :: app_states_t where
  "WAIT = 6"

subsection \<open>The environment\<close>

record env =
  \<comment> \<open>answers of the library calls\<close>
  uart_ow_init_ret :: bool
  uart_ow_reset_ret :: mraa_result_t
  uart_ow_rom_search_ret :: "nat \<Rightarrow> mraa_result_t \<times> uint8_t list"
  gpio_init_ret :: bool
  gpio_dir_ret :: mraa_result_t
  aio_init_ret :: "uint8_t \<Rightarrow> bool"
  uart_ow_read_byte_ret :: "nat \<Rightarrow> uint8_t"
  uart_ow_crc8 :: "uint8_t list \<Rightarrow> uint8_t"
  gpio_write_ret :: "nat \<Rightarrow> mraa_result_t"
  dust_aio_read_ret :: "nat \<Rightarrow> uint16_t"
  hsm_aio_read_ret :: "nat \<Rightarrow> uint16_t"
  db_ret :: "nat \<Rightarrow> db_outcome"
  \<comment> \<open>what the program has done to the outside\<close>
  uart_ow_open :: bool
  dust_gpio_open :: bool
  dust_aio_open :: bool
  hsm_aio_open :: bool
  ow_commands :: "(uint8_t \<times> uint8_t list) list"
  sensor_data :: "(uint8_t \<times> real) list"

text \<open>
  \<open>uart_ow_init_ret\<close>, \<open>gpio_init_ret\<close> and \<open>aio_init_ret pin\<close> say whether the
  initialisation returns a handle (\<open>True\<close>) or \<^verbatim>\<open>NULL\<close>. \<open>uart_ow_rom_search_ret\<close> gives,
  for each search still to come, its result code and the ROM code it leaves in the
  caller's buffer. \<open>uart_ow_read_byte_ret\<close> gives the bytes the bus will deliver, each
  already converted to \<^verbatim>\<open>uint8_t\<close>. \<open>uart_ow_crc8\<close> is the library's CRC-8 of a buffer.
  \<open>sensor_data\<close> lists the rows inserted into the table of that name, oldest first, each
  with the arguments \<^verbatim>\<open>sen_id\<close> and \<^verbatim>\<open>sen_val\<close> of the call that inserted it.
\<close>

definition mraa_uart_ow_command :: "uint8_t \<Rightarrow> uint8_t list \<Rightarrow> env \<Rightarrow> env" where
  "mraa_uart_ow_command command rom e = e\<lparr>ow_commands := ow_commands e @ [(command, rom)]\<rparr>"

definition mraa_uart_ow_read_byte :: "env \<Rightarrow> uint8_t \<times> env" where
  "mraa_uart_ow_read_byte e =
     (uart_ow_read_byte_ret e 0,
      e\<lparr>uart_ow_read_byte_ret := (\<lambda>n. uart_ow_read_byte_ret e (Suc n))\<rparr>)"

definition mraa_gpio_write :: "env \<Rightarrow> mraa_result_t \<times> env" where
  "mraa_gpio_write e =
     (gpio_write_ret e 0, e\<lparr>gpio_write_ret := (\<lambda>n. gpio_write_ret e (Suc n))\<rparr>)"

text \<open>\<^verbatim>\<open>mraa_aio_read\<close> on the dust sensor's pin and on the humidity sensor's pin.\<close>

definition mraa_aio_read_dust :: "env \<Rightarrow> uint16_t \<times> env" where
  "mraa_aio_read_dust e =
     (dust_aio_read_ret e 0, e\<lparr>dust_aio_read_ret := (\<lambda>n. dust_aio_read_ret e (Suc n))\<rparr>)"

definition mraa_aio_read_hsm :: "env \<Rightarrow> uint16_t \<times> env" where
  "mraa_aio_read_hsm e =
     (hsm_aio_read_ret e 0, e\<lparr>hsm_aio_read_ret := (\<lambda>n. hsm_aio_read_ret e (Suc n))\<rparr>)"

text \<open>
  \<^verbatim>\<open>mraa_uart_ow_rom_search\<close>: the result code and the ROM code found. The search type
  chooses what the bus is asked; the answer is the environment's either way.
\<close>

definition mraa_uart_ow_rom_search ::
  "uint8_t \<Rightarrow> env \<Rightarrow> (mraa_result_t \<times> uint8_t list) \<times> env" where
  "mraa_uart_ow_rom_search search_type e =
     (uart_ow_rom_search_ret e 0,
      e\<lparr>uart_ow_rom_search_ret := (\<lambda>n. uart_ow_rom_search_ret e (Suc n))\<rparr>)"

definition mraa_uart_ow_stop :: "env \<Rightarrow> env" where
  "mraa_uart_ow_stop e = e\<lparr>uart_ow_open := False\<rparr>"

definition mraa_gpio_close :: "env \<Rightarrow> env" where
  "mraa_gpio_close e = e\<lparr>dust_gpio_open := False\<rparr>"

definition mraa_aio_close_dust :: "env \<Rightarrow> env" where
  "mraa_aio_close_dust e = e\<lparr>dust_aio_open := False\<rparr>"

definition mraa_aio_close_hsm :: "env \<Rightarrow> env" where
  "mraa_aio_close_hsm e = e\<lparr>hsm_aio_open := False\<rparr>"

subsection \<open>\<^verbatim>\<open>ds18b20_read_temp_float\<close>\<close>

text \<open>
  The loop \<^verbatim>\<open>for (i = 0; i < ds18b20_scratchpad_len; i++)\<close> that fills the scratchpad:
  \<open>read_scratchpad n\<close> reads the \<open>n\<close> bytes still missing.
\<close>

fun read_scratchpad :: "nat \<Rightarrow> env \<Rightarrow> uint8_t list \<times> env" where
  "read_scratchpad 0 e = ([], e)"
| "read_scratchpad (Suc n) e =
     (let (b, e1) = mraa_uart_ow_read_byte e;
          (bs, e2) = read_scratchpad n e1
      in (b # bs, e2))"

definition ds18b20_scratchpad_len :: nat where
  "ds18b20_scratchpad_len = 9"

text \<open>
  The function returns its status and writes through \<^verbatim>\<open>p_temp\<close>; the model takes the
  value \<^verbatim>\<open>*p_temp\<close> has before the call and returns the status and the value it has
  after it.
\<close>

definition ds18b20_read_temp_float ::
  "uint8_t list \<Rightarrow> real \<Rightarrow> env \<Rightarrow> (uint8_t \<times> real) \<times> env" where
  "ds18b20_read_temp_float sen_addr p_temp e =
     (let e1 = mraa_uart_ow_command CMD_READ_SCRATCHPAD sen_addr e;
          (ds18b20_scratchpad, e2) = read_scratchpad ds18b20_scratchpad_len e1;
          crc = uart_ow_crc8 e2 (take DS18B20_ADDR_LEN ds18b20_scratchpad)
      in if crc \<noteq> ds18b20_scratchpad ! 8 then ((FAIL, p_temp), e2)
         else
           let temp_adc_val = (push_bit 8 (ucast (ds18b20_scratchpad ! 1) :: int16_t)
                                 OR ucast (ds18b20_scratchpad ! 0));
               is_temp_negative = (if ds18b20_scratchpad ! 1 AND 0x80 \<noteq> 0
                                   then 1 else 0 :: uint8_t);
               temp_adc_val' = (if is_temp_negative \<noteq> 0
                                then - (NOT temp_adc_val + 1) else temp_adc_val)
           in ((SUCCESS, real_of_int (sint temp_adc_val') * 0.0625), e2))"

subsection \<open>\<^verbatim>\<open>ds18b20_update\<close>\<close>

definition ds18b20_update :: "uint8_t list \<Rightarrow> env \<Rightarrow> env" where
  "ds18b20_update sen_addr e = mraa_uart_ow_command CMD_START_TEMP_CONV sen_addr e"

subsection \<open>\<^verbatim>\<open>gp2y_read_dust_output_voltage_float\<close>\<close>

definition gp2y_read_dust_output_voltage_float :: "env \<Rightarrow> real \<times> env" where
  "gp2y_read_dust_output_voltage_float e =
     (let (mraa_ret_val, e1) = mraa_gpio_write e
      in if MRAA_SUCCESS \<noteq> mraa_ret_val then (0.0, e1)
         else
           let (dust_adc_val, e2) = mraa_aio_read_dust e1;
               (mraa_ret_val', e3) = mraa_gpio_write e2
           in if MRAA_SUCCESS \<noteq> mraa_ret_val' then (0.0, e3)
              else ((real (unat dust_adc_val) / 1023.0) * 5.0, e3))"

subsection \<open>\<^verbatim>\<open>hsm_read_humidity_float\<close>\<close>

text \<open>
  The second assignment of the function, \<^verbatim>\<open>humidity = ((1.253 * humidity * humidity) +
  (25.931 * humidity) - 7.542)\<close>, as a function of the voltage the first one left in
  \<^verbatim>\<open>humidity\<close>.
\<close>

definition hsm_humidity_of_voltage :: "real \<Rightarrow> real" where
  "hsm_humidity_of_voltage v = ((1.253 * v * v) + (25.931 * v) - 7.542)"

definition hsm_read_humidity_float :: "env \<Rightarrow> real \<times> env" where
  "hsm_read_humidity_float e =
     (let (hum_adc_val, e1) = mraa_aio_read_hsm e;
          v = ((real (unat hum_adc_val) / 1023.0) * 5.0)
      in (hsm_humidity_of_voltage v, e1))"

subsection \<open>\<^verbatim>\<open>store_data_to_db\<close>\<close>

text \<open>
  Each of the three failures returns \<^verbatim>\<open>FAIL\<close> with no row inserted; the row is the pair
  of the arguments (the text of the query, with its \<^verbatim>\<open>%0.2f\<close>, is not modelled).
\<close>

definition store_data_to_db :: "uint8_t \<Rightarrow> real \<Rightarrow> env \<Rightarrow> uint8_t \<times> env" where
  "store_data_to_db sen_id sen_val e =
     (let e1 = e\<lparr>db_ret := (\<lambda>n. db_ret e (Suc n))\<rparr>
      in case db_ret e 0 of
           DB_OPEN_FAILED \<Rightarrow> (FAIL, e1)
         | DB_MALLOC_FAILED \<Rightarrow> (FAIL, e1)
         | DB_EXEC_FAILED \<Rightarrow> (FAIL, e1)
         | DB_OK \<Rightarrow> (SUCCESS, e1\<lparr>sensor_data := sensor_data e1 @ [(sen_id, sen_val)]\<rparr>))"

subsection \<open>\<^verbatim>\<open>main\<close>: its static variables\<close>

text \<open>
  The counter \<^verbatim>\<open>dust_sensor_sample_count\<close> of the sampling loop is the argument of the
  recursion that models the loop and has no field.
\<close>

record app =
  mraa_ret_val :: mraa_result_t
  state_index :: app_states_t
  ds18b20_addr :: "uint8_t list list"
  temp :: real
  sen_count :: uint8_t
  humidity :: real
  dust_concentration :: real
  acc_dust_concentration :: real
  dust_data_coll_err :: uint8_t

definition dust_ir_led_pin :: uint8_t where
  "dust_ir_led_pin = 4"

definition dust_aio_in :: uint8_t where
  "dust_aio_in = 0"

definition hsm_aio_in :: uint8_t where
  "hsm_aio_in = 1"

definition dust_sensor_max_sample :: uint8_t where
  "dust_sensor_max_sample = 16"

text \<open>The initialisers of the static variables (a static without one starts at zero).\<close>

definition app_init :: app where
  "app_init =
     \<lparr>mraa_ret_val = MRAA_SUCCESS, state_index = NONE,
      ds18b20_addr = replicate (nat NUM_OF_SENSORS) (replicate DS18B20_ADDR_LEN 0),
      temp = 0.0, sen_count = 0, humidity = 0.0, dust_concentration = 0.0,
      acc_dust_concentration = 0.0, dust_data_coll_err = 0\<rparr>"

subsection \<open>\<^verbatim>\<open>main\<close>: the cases of the state machine\<close>

text \<open>
  Each case of the \<^verbatim>\<open>switch\<close> is a function from the variables and the environment
  before the case to those after it. \<open>ds18b20_addr a ! unat (sen_count a)\<close> is the row
  \<^verbatim>\<open>ds18b20_addr[sen_count]\<close>; the program keeps \<^verbatim>\<open>sen_count\<close> below
  \<^verbatim>\<open>NUM_OF_SENSORS\<close> wherever it reads a row.
\<close>

definition case_NONE :: "app \<Rightarrow> env \<Rightarrow> app \<times> env" where
  "case_NONE a e = (a\<lparr>state_index := START_CONV\<rparr>, e)"

definition case_START_CONV :: "app \<Rightarrow> env \<Rightarrow> app \<times> env" where
  "case_START_CONV a e =
     (a\<lparr>state_index := WAIT_TILL_CONV_FINISHED\<rparr>,
      ds18b20_update (ds18b20_addr a ! unat (sen_count a)) e)"

definition case_WAIT_TILL_CONV_FINISHED :: "app \<Rightarrow> env \<Rightarrow> app \<times> env" where
  "case_WAIT_TILL_CONV_FINISHED a e = (a\<lparr>state_index := READ_TEMP\<rparr>, e)"

text \<open>
  \<^verbatim>\<open>ds18b20_addr[sen_count++]\<close>: the row is chosen with the old value of
  \<^verbatim>\<open>sen_count\<close>, and \<^verbatim>\<open>sen_count\<close> is already incremented when the reader is called.
\<close>

definition case_READ_TEMP :: "app \<Rightarrow> env \<Rightarrow> app \<times> env" where
  "case_READ_TEMP a e =
     (let sen_addr = ds18b20_addr a ! unat (sen_count a);
          a1 = a\<lparr>sen_count := sen_count a + 1\<rparr>;
          ((ret, t), e1) = ds18b20_read_temp_float sen_addr (temp a1) e;
          a2 = a1\<lparr>temp := t\<rparr>
      in if SUCCESS = ret then
           let (ret', e2) = store_data_to_db (sen_count a2) (temp a2) e1
           in if SUCCESS = ret' then
                if uint (sen_count a2) \<ge> NUM_OF_SENSORS
                then (a2\<lparr>sen_count := 0, state_index := READ_DUST_CONCENTRATION\<rparr>, e2)
                else (a2\<lparr>state_index := START_CONV\<rparr>, e2)
              else (a2\<lparr>state_index := WAIT + 1\<rparr>, e2)
         else (a2\<lparr>state_index := WAIT + 1\<rparr>, e1))"

text \<open>
  The sampling loop \<^verbatim>\<open>for (dust_sensor_sample_count = 0; dust_sensor_sample_count <
  dust_sensor_max_sample; dust_sensor_sample_count++)\<close>: \<open>dust_sample_loop n\<close> takes
  the \<open>n\<close> samples still to come.
\<close>

fun dust_sample_loop :: "nat \<Rightarrow> app \<Rightarrow> env \<Rightarrow> app \<times> env" where
  "dust_sample_loop 0 a e = (a, e)"
| "dust_sample_loop (Suc n) a e =
     (let (v, e1) = gp2y_read_dust_output_voltage_float e;
          a1 = a\<lparr>dust_concentration := v\<rparr>;
          a2 = (if dust_concentration a1 \<ge> 0.0
                then a1\<lparr>acc_dust_concentration :=
                          acc_dust_concentration a1 + dust_concentration a1\<rparr>
                else a1\<lparr>dust_data_coll_err := 1\<rparr>)
      in dust_sample_loop n a2 e1)"

text \<open>
  The response curve of the dust sensor, lines 367 to 385: the value the three branches
  leave in \<^verbatim>\<open>acc_dust_concentration\<close>, as a function of the mean voltage it held.
\<close>

definition dust_density_of_voltage :: "real \<Rightarrow> real" where
  "dust_density_of_voltage v =
     (if v \<le> 0.6 then 0.0
      else if (v > 0.6) \<and> (v \<le> 3.5) then (v - 0.6) / 5.8
      else 0.6)"

definition case_READ_DUST_CONCENTRATION :: "app \<Rightarrow> env \<Rightarrow> app \<times> env" where
  "case_READ_DUST_CONCENTRATION a e =
     (let a1 = a\<lparr>dust_data_coll_err := 0, acc_dust_concentration := 0.0\<rparr>;
          (a2, e1) = dust_sample_loop (unat dust_sensor_max_sample) a1 e
      in if dust_data_coll_err a2 \<noteq> 0 then (a2\<lparr>state_index := WAIT + 1\<rparr>, e1)
         else
           let a3 = a2\<lparr>acc_dust_concentration :=
                          acc_dust_concentration a2 / real (unat dust_sensor_max_sample)\<rparr>;
               a4 = a3\<lparr>acc_dust_concentration :=
                          dust_density_of_voltage (acc_dust_concentration a3)\<rparr>;
               (ret, e2) = store_data_to_db (word_of_int (NUM_OF_SENSORS + 1))
                             (acc_dust_concentration a4) e1
           in if SUCCESS = ret then (a4\<lparr>state_index := READ_HUMIDITY\<rparr>, e2)
              else (a4\<lparr>state_index := WAIT + 1\<rparr>, e2))"

definition case_READ_HUMIDITY :: "app \<Rightarrow> env \<Rightarrow> app \<times> env" where
  "case_READ_HUMIDITY a e =
     (let (h, e1) = hsm_read_humidity_float e;
          a1 = a\<lparr>humidity := h\<rparr>;
          (ret, e2) = store_data_to_db (word_of_int (NUM_OF_SENSORS + 2)) (humidity a1) e1
      in if SUCCESS = ret then (a1\<lparr>state_index := WAIT\<rparr>, e2)
         else (a1\<lparr>state_index := WAIT + 1\<rparr>, e2))"

definition case_WAIT :: "app \<Rightarrow> env \<Rightarrow> app \<times> env" where
  "case_WAIT a e = (a\<lparr>state_index := START_CONV\<rparr>, e)"

text \<open>The \<^verbatim>\<open>default\<close> case up to its \<^verbatim>\<open>while(1);\<close>: the four calls that give the handles back.\<close>

definition case_default :: "app \<Rightarrow> env \<Rightarrow> app \<times> env" where
  "case_default a e =
     (a, mraa_uart_ow_stop (mraa_aio_close_hsm (mraa_aio_close_dust (mraa_gpio_close e))))"

subsection \<open>\<^verbatim>\<open>main\<close>: the loop\<close>

text \<open>
  Neither loop of \<^verbatim>\<open>main\<close> ends, so both take fuel: the number of passes to run.
  \<open>spin\<close> is \<^verbatim>\<open>while(1);\<close>, whose body is empty. \<open>main_loop\<close> is \<^verbatim>\<open>for ( ; ; )\<close>
  around the \<^verbatim>\<open>switch\<close>: a case that ends in \<^verbatim>\<open>break\<close> is followed by the next pass, and
  the \<^verbatim>\<open>default\<close> case by \<open>spin\<close>, from which control never comes back to the
  \<^verbatim>\<open>switch\<close>. The result is the state reached when the fuel is used up.
\<close>

fun spin :: "nat \<Rightarrow> app \<Rightarrow> env \<Rightarrow> app \<times> env" where
  "spin 0 a e = (a, e)"
| "spin (Suc n) a e = spin n a e"

fun main_loop :: "nat \<Rightarrow> app \<Rightarrow> env \<Rightarrow> app \<times> env" where
  "main_loop 0 a e = (a, e)"
| "main_loop (Suc n) a e =
     (if state_index a = NONE then
        (let (a', e') = case_NONE a e in main_loop n a' e')
      else if state_index a = START_CONV then
        (let (a', e') = case_START_CONV a e in main_loop n a' e')
      else if state_index a = WAIT_TILL_CONV_FINISHED then
        (let (a', e') = case_WAIT_TILL_CONV_FINISHED a e in main_loop n a' e')
      else if state_index a = READ_TEMP then
        (let (a', e') = case_READ_TEMP a e in main_loop n a' e')
      else if state_index a = READ_DUST_CONCENTRATION then
        (let (a', e') = case_READ_DUST_CONCENTRATION a e in main_loop n a' e')
      else if state_index a = READ_HUMIDITY then
        (let (a', e') = case_READ_HUMIDITY a e in main_loop n a' e')
      else if state_index a = WAIT then
        (let (a', e') = case_WAIT a e in main_loop n a' e')
      else
        (let (a', e') = case_default a e in spin n a' e'))"

subsection \<open>\<^verbatim>\<open>main\<close>: start-up\<close>

text \<open>
  The loop \<^verbatim>\<open>do { ... } while (NUM_OF_SENSORS != (++sen_count));\<close> that searches the
  other sensors. The first component of the result is \<open>False\<close> when the body has
  executed \<^verbatim>\<open>return 1\<close> (after stopping the UART), and \<open>True\<close> when the loop has ended.
\<close>

function search_loop :: "app \<Rightarrow> env \<Rightarrow> bool \<times> app \<times> env" where
  "search_loop a e =
     (let ((r, rom), e1) = mraa_uart_ow_rom_search CONTINUE_WITH_PREV_SEARCH e;
          a1 = a\<lparr>mraa_ret_val := r,
                 ds18b20_addr := (ds18b20_addr a)[unat (sen_count a) := rom]\<rparr>
      in if MRAA_ERROR_UART_OW_NO_DEVICES = mraa_ret_val a1
         then (False, a1, mraa_uart_ow_stop e1)
         else
           let a2 = a1\<lparr>sen_count := sen_count a1 + 1\<rparr>
           in if NUM_OF_SENSORS \<noteq> uint (sen_count a2) then search_loop a2 e1
              else (True, a2, e1))"
  by pat_completeness auto
termination
proof (relation "measure (\<lambda>(a, e). unat (word_of_int (NUM_OF_SENSORS - 1) - sen_count a))",
    goal_cases)
  case 1
  show ?case by simp
next
  case (2 a e x xa y xb ya xd xe)
  have ne: "1 - sen_count a \<noteq> 0"
    using 2 by (auto simp: NUM_OF_SENSORS_def)
  have "unat ((1 - sen_count a) - 1) = unat (1 - sen_count a) - 1"
    using ne by (rule unat_minus_one)
  moreover have "unat (1 - sen_count a) \<noteq> 0"
    using ne by (simp add: unat_eq_zero)
  ultimately have "unat (- sen_count a) < unat (1 - sen_count a)"
    by simp
  then show ?case
    using 2 by (simp add: NUM_OF_SENSORS_def)
qed

text \<open>
  The part of \<^verbatim>\<open>main\<close> before \<^verbatim>\<open>for ( ; ; )\<close>. The first component of the result is
  \<open>Some 1\<close> when \<^verbatim>\<open>main\<close> has returned 1, and \<open>None\<close> when control reaches the loop.
  \<^verbatim>\<open>ds18b20_addr[sen_count++]\<close> passes the row of the old \<^verbatim>\<open>sen_count\<close> to the search.
\<close>

definition main_startup :: "app \<Rightarrow> env \<Rightarrow> int option \<times> app \<times> env" where
  "main_startup a e =
     (if \<not> uart_ow_init_ret e then (Some 1, a, e)
      else
        let e1 = e\<lparr>uart_ow_open := True\<rparr>;
            a1 = a\<lparr>mraa_ret_val := uart_ow_reset_ret e1\<rparr>
        in if MRAA_SUCCESS \<noteq> mraa_ret_val a1 then (Some 1, a1, mraa_uart_ow_stop e1)
           else
             let ((r, rom), e2) = mraa_uart_ow_rom_search NEW_SEARCH e1;
                 a2 = a1\<lparr>mraa_ret_val := r,
                         ds18b20_addr := (ds18b20_addr a1)[unat (sen_count a1) := rom],
                         sen_count := sen_count a1 + 1\<rparr>
             in if MRAA_ERROR_UART_OW_NO_DEVICES = mraa_ret_val a2
                then (Some 1, a2, mraa_uart_ow_stop e2)
                else
                  let (continue, a3, e3) =
                        (if NUM_OF_SENSORS > 1 then search_loop a2 e2 else (True, a2, e2))
                  in if \<not> continue then (Some 1, a3, e3)
                     else if MRAA_ERROR_UART_OW_DATA_ERROR = mraa_ret_val a3
                     then (Some 1, a3, mraa_uart_ow_stop e3)
                     else if \<not> gpio_init_ret e3 then (Some 1, a3, mraa_uart_ow_stop e3)
                     else
                       let e4 = e3\<lparr>dust_gpio_open := True\<rparr>;
                           a4 = a3\<lparr>mraa_ret_val := gpio_dir_ret e4\<rparr>
                       in if MRAA_SUCCESS \<noteq> mraa_ret_val a4
                          then (Some 1, a4, mraa_uart_ow_stop (mraa_gpio_close e4))
                          else if \<not> aio_init_ret e4 dust_aio_in
                          then (Some 1, a4, mraa_uart_ow_stop (mraa_gpio_close e4))
                          else
                            let e5 = e4\<lparr>dust_aio_open := True\<rparr>
                            in if \<not> aio_init_ret e5 hsm_aio_in
                               then (Some 1, a4,
                                     mraa_uart_ow_stop
                                       (mraa_aio_close_dust (mraa_gpio_close e5)))
                               else (None, a4\<lparr>sen_count := 0\<rparr>,
                                     e5\<lparr>hsm_aio_open := True\<rparr>))"

text \<open>
  \<^verbatim>\<open>main\<close>: start-up, then the loop for as long as the fuel lasts. The exit status is
  \<open>Some 1\<close> when start-up has failed and \<open>None\<close> while the program is running
  (\<^verbatim>\<open>return 0\<close> after the loop is never reached).
\<close>

definition main :: "nat \<Rightarrow> env \<Rightarrow> int option \<times> app \<times> env" where
  "main fuel e =
     (case main_startup app_init e of
        (Some status, a, e') \<Rightarrow> (Some status, a, e')
      | (None, a, e') \<Rightarrow> (None, main_loop fuel a e'))"

subsection \<open>Example environments\<close>

text \<open>
  Scratchpad frames of a DS18B20 (temperature LSB, temperature MSB, the alarm and
  configuration bytes, CRC): 25 degrees, -55 degrees, the frame with LSB \<open>0xFF\<close> and
  MSB \<open>0xFE\<close>, and the first frame with one bit of its first byte flipped.
\<close>

definition frame_0190 :: "uint8_t list" where
  "frame_0190 = [0x90, 0x01, 0x4B, 0x46, 0x7F, 0xFF, 0x0C, 0x10, 0x2E]"

definition frame_FC90 :: "uint8_t list" where
  "frame_FC90 = [0x90, 0xFC, 0x4B, 0x46, 0x7F, 0xFF, 0x0C, 0x10, 0x33]"

definition frame_FEFF :: "uint8_t list" where
  "frame_FEFF = [0xFF, 0xFE, 0x4B, 0x46, 0x7F, 0xFF, 0x0C, 0x10, 0x13]"

definition frame_corrupted :: "uint8_t list" where
  "frame_corrupted = [0x91, 0x01, 0x4B, 0x46, 0x7F, 0xFF, 0x0C, 0x10, 0x2E]"

text \<open>
  A CRC routine for the examples: on the first eight bytes of the three intact frames
  it answers their ninth byte, and 0 on every other buffer.
\<close>

definition example_crc8 :: "uint8_t list \<Rightarrow> uint8_t" where
  "example_crc8 buffer =
     (if buffer = take 8 frame_0190 then 0x2E
      else if buffer = take 8 frame_FC90 then 0x33
      else if buffer = take 8 frame_FEFF then 0x13
      else 0x00)"

text \<open>
  An environment in which every call succeeds: the bus delivers \<open>frame\<close> again and
  again, the dust sensor's pin reads 2046 and the humidity sensor's pin reads 400.
\<close>

definition example_env :: "uint8_t list \<Rightarrow> env" where
  "example_env frame =
     \<lparr>uart_ow_init_ret = True, uart_ow_reset_ret = MRAA_SUCCESS,
      uart_ow_rom_search_ret = (\<lambda>n. (MRAA_SUCCESS, [0x28, of_nat n, 0, 0, 0, 0, 0, 0])),
      gpio_init_ret = True, gpio_dir_ret = MRAA_SUCCESS, aio_init_ret = (\<lambda>pin. True),
      uart_ow_read_byte_ret = (\<lambda>n. frame ! (n mod 9)), uart_ow_crc8 = example_crc8,
      gpio_write_ret = (\<lambda>n. MRAA_SUCCESS), dust_aio_read_ret = (\<lambda>n. 2046),
      hsm_aio_read_ret = (\<lambda>n. 400), db_ret = (\<lambda>n. DB_OK),
      uart_ow_open = False, dust_gpio_open = False, dust_aio_open = False,
      hsm_aio_open = False, ow_commands = [], sensor_data = []\<rparr>"

section \<open>Properties\<close>

subsection \<open>Auxiliary facts\<close>

lemmas app_states_defs =
  NONE_def START_CONV_def WAIT_TILL_CONV_FINISHED_def READ_TEMP_def
  READ_DUST_CONCENTRATION_def READ_HUMIDITY_def WAIT_def

lemma read_scratchpad_eq:
  "read_scratchpad n e =
     (map (uart_ow_read_byte_ret e) [0..<n],
      e\<lparr>uart_ow_read_byte_ret := (\<lambda>k. uart_ow_read_byte_ret e (k + n))\<rparr>)"
proof (induction n arbitrary: e)
  case 0
  show ?case by simp
next
  case (Suc n)
  have "map (uart_ow_read_byte_ret e) [0..<Suc n] =
        uart_ow_read_byte_ret e 0 # map (\<lambda>k. uart_ow_read_byte_ret e (Suc k)) [0..<n]"
    by (simp only: upt_conv_Cons [of 0 "Suc n"] map_Suc_upt [symmetric]) (simp add: comp_def)
  then show ?case
    by (simp add: Suc.IH mraa_uart_ow_read_byte_def del: upt_Suc)
qed

text \<open>The negative branch, \<^verbatim>\<open>~x + 1\<close> and then \<^verbatim>\<open>-x\<close>, gives back the field it started from.\<close>

lemma neg_branch_identity: "- (NOT x + 1) = (x :: 16 word)"
  by (simp add: not_eq_complement)

lemma top_bit_int:
  fixes k :: int
  assumes "0 \<le> k" and "k < 2 * 2 ^ n"
  shows "bit k n = (2 ^ n \<le> k)"
proof (cases "k < 2 ^ n")
  case True
  then have "k div 2 ^ n = 0"
    using assms by simp
  then show ?thesis
    using True by (simp add: bit_iff_odd)
next
  case False
  then have "0 \<le> k - 2 ^ n" and "k - 2 ^ n < 2 ^ n"
    using assms by simp_all
  then have "(k - 2 ^ n) div 2 ^ n = 0"
    by simp
  moreover have "k div 2 ^ n = (k - 2 ^ n) div 2 ^ n + 1"
    using div_add_self2 [of "2 ^ n :: int" "k - 2 ^ n"] by simp
  ultimately have "k div 2 ^ n = 1"
    by simp
  then show ?thesis
    using False by (simp add: bit_iff_odd)
qed

lemma msb_bit7_iff:
  fixes lsb msb :: uint8_t
  shows "bit msb 7 = (32768 \<le> uint lsb + 256 * uint msb)"
proof -
  have lt0: "uint lsb < 256" and lt1: "uint msb < 256"
    using uint_bounded [of lsb] uint_bounded [of msb] by simp_all
  have ge0: "0 \<le> uint lsb" and ge1: "0 \<le> uint msb"
    by simp_all
  have "bit msb 7 = bit (uint msb) 7"
    by (simp add: bit_uint_iff)
  also have "\<dots> = (128 \<le> uint msb)"
    using top_bit_int [of "uint msb" 7] ge1 lt1 by simp
  also have "\<dots> = (32768 \<le> uint lsb + 256 * uint msb)"
    using lt0 ge0 by linarith
  finally show ?thesis .
qed

lemma sint_int16:
  fixes w :: int16_t
  shows "sint w = (if uint w < 32768 then uint w else uint w - 65536)"
proof -
  have lt: "uint w < 65536" and ge: "0 \<le> uint w"
    using uint_bounded [of w] by simp_all
  have "bit (uint w) 15 = (32768 \<le> uint w)"
    using top_bit_int [of "uint w" 15] lt ge by simp
  then show ?thesis
    using lt ge by (simp add: sint_uint signed_take_bit_eq_take_bit_minus take_bit_int_eq_self)
qed

lemma uint_temp_adc_val:
  fixes lsb msb :: uint8_t
  shows "uint (push_bit 8 (ucast msb :: int16_t) OR ucast lsb) = uint lsb + 256 * uint msb"
proof -
  have cat: "(push_bit 8 (ucast msb :: int16_t) OR ucast lsb) = push_bit 8 (ucast msb) + ucast lsb"
    using word_cat_eq_push_bit_or [of msb lsb, where ?'c = 16]
      word_cat_eq [of msb lsb, where ?'c = 16]
    by simp
  have u0: "uint (ucast lsb :: int16_t) = uint lsb"
    and u1: "uint (ucast msb :: int16_t) = uint msb"
    by (simp_all add: uint_up_ucast is_up)
  have lt0: "uint lsb < 256" and lt1: "uint msb < 256"
    using uint_bounded [of lsb] uint_bounded [of msb] by simp_all
  have ge0: "0 \<le> uint lsb" and ge1: "0 \<le> uint msb"
    by simp_all
  have "uint (push_bit 8 (ucast msb :: int16_t) + ucast lsb) =
        (uint msb * 256 + uint lsb) mod 65536"
    by (simp add: uint_word_ariths push_bit_eq_mult u0 u1 mod_simps)
  also have "\<dots> = uint lsb + 256 * uint msb"
    using lt0 lt1 ge0 ge1 by simp
  finally show ?thesis
    by (simp only: cat)
qed

text \<open>
  \<^verbatim>\<open>ds18b20_read_temp_float\<close> in one equation: the status and \<^verbatim>\<open>*p_temp\<close> by the
  outcome of the CRC comparison, and the environment it leaves (one command sent, nine
  bytes consumed).
\<close>

lemma ds18b20_read_temp_float_eq:
  "ds18b20_read_temp_float sen_addr p_temp e =
     (if uart_ow_crc8 e (map (uart_ow_read_byte_ret e) [0..<8]) \<noteq> uart_ow_read_byte_ret e 8
      then (FAIL, p_temp)
      else (SUCCESS,
            real_of_int (sint (push_bit 8 (ucast (uart_ow_read_byte_ret e 1) :: int16_t)
                                 OR ucast (uart_ow_read_byte_ret e 0))) * 0.0625),
      e\<lparr>ow_commands := ow_commands e @ [(CMD_READ_SCRATCHPAD, sen_addr)],
        uart_ow_read_byte_ret := (\<lambda>k. uart_ow_read_byte_ret e (k + 9))\<rparr>)"
  unfolding ds18b20_read_temp_float_def Let_def
  by (simp only: neg_branch_identity if_cancel)
    (simp add: ds18b20_scratchpad_len_def DS18B20_ADDR_LEN_def
      mraa_uart_ow_command_def read_scratchpad_eq take_map)

lemma temp_adc_val_signed:
  fixes lsb msb :: uint8_t
  shows "real_of_int (sint (push_bit 8 (ucast msb :: int16_t) OR ucast lsb)) =
         (if bit msb 7 then - real_of_int (65536 - (uint lsb + 256 * uint msb))
          else real_of_int (uint lsb + 256 * uint msb))"
  using msb_bit7_iff [of msb lsb] by (simp add: sint_int16 uint_temp_adc_val)

lemma map_upt_8: "map f [0..<8] = [f 0, f 1, f 2, f 3, f 4, f 5, f 6, f 7]"
  by (simp add: eval_nat_numeral upt_conv_Cons)

subsection \<open>The temperature reader\<close>

text \<open>
  C1, as amended. Whenever the CRC of the first eight bytes of the scratchpad equals its
  ninth byte, \<^verbatim>\<open>ds18b20_read_temp_float\<close> returns \<^verbatim>\<open>SUCCESS\<close> and stores in
  \<^verbatim>\<open>*p_temp\<close> the value of the 16-bit little-endian field \<open>raw\<close> (byte 0 the LSB,
  byte 1 the MSB) as follows: when bit 7 of byte 1 is set, the negated two's
  complement \<open>- (65536 - raw)\<close>, else \<open>raw\<close>, times 0.0625. This is the field read as
  a signed 16-bit integer, times 0.0625. The field \<open>0x0190\<close> gives 25.0, the field
  \<open>0xFC90\<close> gives -55.0, and LSB \<open>0xFF\<close> with MSB \<open>0xFE\<close> gives -16.0625.
\<close>

theorem ds18b20_read_temp_float_decodes:
  fixes e :: env and sen_addr :: "uint8_t list" and p_temp :: real
  assumes crc: "uart_ow_crc8 e (map (uart_ow_read_byte_ret e) [0..<8]) = uart_ow_read_byte_ret e 8"
  shows "let lsb = uart_ow_read_byte_ret e 0; msb = uart_ow_read_byte_ret e 1;
             raw = uint lsb + 256 * uint msb;
             r = fst (ds18b20_read_temp_float sen_addr p_temp e)
         in fst r = SUCCESS
          \<and> snd r = (if bit msb 7 then - real_of_int (65536 - raw) else real_of_int raw) * 0.0625
          \<and> snd r = real_of_int (sint (word_of_int raw :: int16_t)) * 0.0625
          \<and> (lsb = 0x90 \<and> msb = 0x01 \<longrightarrow> snd r = 25.0)
          \<and> (lsb = 0x90 \<and> msb = 0xFC \<longrightarrow> snd r = - 55.0)
          \<and> (lsb = 0xFF \<and> msb = 0xFE \<longrightarrow> snd r = - 16.0625)"
proof -
  define lsb where "lsb = uart_ow_read_byte_ret e 0"
  define msb where "msb = uart_ow_read_byte_ret e 1"
  define raw where "raw = uint lsb + 256 * uint msb"
  define r where "r = fst (ds18b20_read_temp_float sen_addr p_temp e)"
  have r: "r = (SUCCESS, real_of_int (sint (push_bit 8 (ucast msb :: int16_t) OR ucast lsb)) * 0.0625)"
    using crc by (simp add: r_def lsb_def msb_def ds18b20_read_temp_float_eq)
  have w: "(word_of_int raw :: int16_t) = push_bit 8 (ucast msb) OR ucast lsb"
    unfolding raw_def uint_temp_adc_val [symmetric] by simp
  have 1: "fst r = SUCCESS"
    by (simp add: r)
  have 2: "snd r = (if bit msb 7 then - real_of_int (65536 - raw) else real_of_int raw) * 0.0625"
    unfolding r raw_def snd_conv temp_adc_val_signed ..
  have 3: "snd r = real_of_int (sint (word_of_int raw :: int16_t)) * 0.0625"
    unfolding r w by simp
  have 4: "lsb = 0x90 \<and> msb = 0x01 \<longrightarrow> snd r = 25.0"
    unfolding 2 raw_def by simp
  have 5: "lsb = 0x90 \<and> msb = 0xFC \<longrightarrow> snd r = - 55.0"
    unfolding 2 raw_def by simp
  have 6: "lsb = 0xFF \<and> msb = 0xFE \<longrightarrow> snd r = - 16.0625"
    unfolding 2 raw_def by simp
  show ?thesis
    unfolding Let_def lsb_def [symmetric] msb_def [symmetric] raw_def [symmetric] r_def [symmetric]
    using 1 2 3 4 5 6 by blast
qed

text \<open>The theorem at the frame of 25 degrees, whose CRC passes.\<close>

theorem ds18b20_read_temp_float_decodes_witness:
  "uart_ow_crc8 (example_env frame_0190)
       (map (uart_ow_read_byte_ret (example_env frame_0190)) [0..<8]) =
     uart_ow_read_byte_ret (example_env frame_0190) 8
   \<and> fst (ds18b20_read_temp_float [] 0 (example_env frame_0190)) = (SUCCESS, 25.0)"
  using ds18b20_read_temp_float_decodes [of "example_env frame_0190" "[]" 0]
  by (simp add: example_env_def frame_0190_def example_crc8_def Let_def prod_eq_iff
      frame_FC90_def frame_FEFF_def map_upt_8)

text \<open>
  C1 as stated fails at the frame with LSB \<open>0xFF\<close> and MSB \<open>0xFE\<close>: its CRC passes and
  it decodes to -16.0625, not to -0.0625.
\<close>

theorem ds18b20_frame_FEFF_counterexample:
  "uart_ow_crc8 (example_env frame_FEFF)
       (map (uart_ow_read_byte_ret (example_env frame_FEFF)) [0..<8]) =
     uart_ow_read_byte_ret (example_env frame_FEFF) 8
   \<and> uart_ow_read_byte_ret (example_env frame_FEFF) 0 = 0xFF
   \<and> uart_ow_read_byte_ret (example_env frame_FEFF) 1 = 0xFE
   \<and> fst (ds18b20_read_temp_float [] 0 (example_env frame_FEFF)) = (SUCCESS, - 16.0625)
   \<and> snd (fst (ds18b20_read_temp_float [] 0 (example_env frame_FEFF))) \<noteq> - 0.0625"
  by (simp add: ds18b20_read_temp_float_eq temp_adc_val_signed example_env_def frame_FEFF_def
      example_crc8_def frame_0190_def frame_FC90_def map_upt_8)

text \<open>
  C4. Whenever the CRC of the first eight bytes of the scratchpad differs from its ninth
  byte, \<^verbatim>\<open>ds18b20_read_temp_float\<close> returns \<^verbatim>\<open>FAIL\<close> (which is not \<^verbatim>\<open>SUCCESS\<close>) and
  leaves \<^verbatim>\<open>*p_temp\<close> as it was: nothing is decoded from the frame. In the controller's
  \<^verbatim>\<open>READ_TEMP\<close> case the variable \<^verbatim>\<open>temp\<close> therefore keeps its value and no row is
  inserted.
\<close>

theorem ds18b20_read_temp_float_crc_mismatch:
  fixes e :: env and sen_addr :: "uint8_t list" and p_temp :: real and a :: app
  assumes crc: "uart_ow_crc8 e (map (uart_ow_read_byte_ret e) [0..<8]) \<noteq> uart_ow_read_byte_ret e 8"
  shows "fst (ds18b20_read_temp_float sen_addr p_temp e) = (FAIL, p_temp)
       \<and> FAIL \<noteq> SUCCESS
       \<and> temp (fst (case_READ_TEMP a e)) = temp a
       \<and> sensor_data (snd (case_READ_TEMP a e)) = sensor_data e"
proof -
  have 1: "fst (ds18b20_read_temp_float sen_addr p_temp e) = (FAIL, p_temp)"
    using crc by (simp add: ds18b20_read_temp_float_eq)
  have 2: "FAIL \<noteq> SUCCESS"
    by (simp add: FAIL_def SUCCESS_def)
  have 3: "temp (fst (case_READ_TEMP a e)) = temp a"
    using crc 2 by (simp add: case_READ_TEMP_def ds18b20_read_temp_float_eq Let_def)
  have 4: "sensor_data (snd (case_READ_TEMP a e)) = sensor_data e"
    using crc 2 by (simp add: case_READ_TEMP_def ds18b20_read_temp_float_eq Let_def)
  show ?thesis
    using 1 2 3 4 by blast
qed

text \<open>The theorem at the corrupted frame, with 21.5 degrees in \<^verbatim>\<open>temp\<close> before the call.\<close>

theorem ds18b20_read_temp_float_crc_mismatch_witness:
  "uart_ow_crc8 (example_env frame_corrupted)
       (map (uart_ow_read_byte_ret (example_env frame_corrupted)) [0..<8]) \<noteq>
     uart_ow_read_byte_ret (example_env frame_corrupted) 8
   \<and> fst (ds18b20_read_temp_float [] 21.5 (example_env frame_corrupted)) = (FAIL, 21.5)
   \<and> temp (fst (case_READ_TEMP (app_init\<lparr>temp := 21.5\<rparr>) (example_env frame_corrupted))) = 21.5
   \<and> sensor_data (snd (case_READ_TEMP (app_init\<lparr>temp := 21.5\<rparr>)
                          (example_env frame_corrupted))) = []"
  using ds18b20_read_temp_float_crc_mismatch
    [of "example_env frame_corrupted" "[]" "21.5" "app_init\<lparr>temp := 21.5\<rparr>"]
  by (simp add: example_env_def frame_corrupted_def example_crc8_def frame_0190_def
      frame_FC90_def frame_FEFF_def map_upt_8 app_init_def)

subsection \<open>The dust sampler\<close>

text \<open>\<^verbatim>\<open>gp2y_read_dust_output_voltage_float\<close> by the results of its two pin writes.\<close>

lemma gp2y_read_dust_output_voltage_float_eq:
  "gp2y_read_dust_output_voltage_float e =
     (if gpio_write_ret e 0 \<noteq> MRAA_SUCCESS
      then (0, e\<lparr>gpio_write_ret := (\<lambda>n. gpio_write_ret e (Suc n))\<rparr>)
      else if gpio_write_ret e 1 \<noteq> MRAA_SUCCESS
      then (0, e\<lparr>gpio_write_ret := (\<lambda>n. gpio_write_ret e (Suc (Suc n))),
                  dust_aio_read_ret := (\<lambda>n. dust_aio_read_ret e (Suc n))\<rparr>)
      else (real (unat (dust_aio_read_ret e 0)) / 1023 * 5,
            e\<lparr>gpio_write_ret := (\<lambda>n. gpio_write_ret e (Suc (Suc n))),
              dust_aio_read_ret := (\<lambda>n. dust_aio_read_ret e (Suc n))\<rparr>))"
  by (simp add: gp2y_read_dust_output_voltage_float_def mraa_gpio_write_def
      mraa_aio_read_dust_def Let_def)

lemma adc_voltage_nonneg: "(0::real) \<le> real (unat w) / 1023 * 5"
  by (simp del: of_nat_unat)

text \<open>
  The reader returns a value that is not negative, and changes nothing of the
  environment but the answers it has consumed.
\<close>

lemma gp2y_read_dust_output_voltage_float_frame:
  "\<exists>v g d. gp2y_read_dust_output_voltage_float e =
             (v, e\<lparr>gpio_write_ret := g, dust_aio_read_ret := d\<rparr>) \<and> 0 \<le> v"
proof (cases "gpio_write_ret e 0 \<noteq> MRAA_SUCCESS")
  case True
  then have "gp2y_read_dust_output_voltage_float e =
      (0, e\<lparr>gpio_write_ret := (\<lambda>n. gpio_write_ret e (Suc n)),
             dust_aio_read_ret := dust_aio_read_ret e\<rparr>) \<and> (0::real) \<le> 0"
    by (simp add: gp2y_read_dust_output_voltage_float_eq)
  then show ?thesis by blast
next
  case False
  show ?thesis
  proof (cases "gpio_write_ret e 1 \<noteq> MRAA_SUCCESS")
    case True
    with False have "gp2y_read_dust_output_voltage_float e =
        (0, e\<lparr>gpio_write_ret := (\<lambda>n. gpio_write_ret e (Suc (Suc n))),
               dust_aio_read_ret := (\<lambda>n. dust_aio_read_ret e (Suc n))\<rparr>) \<and> (0::real) \<le> 0"
      by (simp add: gp2y_read_dust_output_voltage_float_eq)
    then show ?thesis by blast
  next
    case True': False
    with \<open>\<not> gpio_write_ret e 0 \<noteq> MRAA_SUCCESS\<close>
    have "gp2y_read_dust_output_voltage_float e =
        (real (unat (dust_aio_read_ret e 0)) / 1023 * 5,
         e\<lparr>gpio_write_ret := (\<lambda>n. gpio_write_ret e (Suc (Suc n))),
           dust_aio_read_ret := (\<lambda>n. dust_aio_read_ret e (Suc n))\<rparr>)
        \<and> (0::real) \<le> real (unat (dust_aio_read_ret e 0)) / 1023 * 5"
      using adc_voltage_nonneg [of "dust_aio_read_ret e 0"]
      by (simp add: gp2y_read_dust_output_voltage_float_eq)
    then show ?thesis by blast
  qed
qed

text \<open>
  The sampling loop changes \<^verbatim>\<open>dust_concentration\<close> and \<^verbatim>\<open>acc_dust_concentration\<close> only,
  and consumes answers of the pin writes and of the analog reads only.
\<close>

lemma dust_sample_loop_frame:
  "\<exists>dc acc g d. dust_sample_loop n a e =
       (a\<lparr>dust_concentration := dc, acc_dust_concentration := acc\<rparr>,
        e\<lparr>gpio_write_ret := g, dust_aio_read_ret := d\<rparr>)"
proof (induction n arbitrary: a e)
  case 0
  have "dust_sample_loop 0 a e =
      (a\<lparr>dust_concentration := dust_concentration a,
         acc_dust_concentration := acc_dust_concentration a\<rparr>,
       e\<lparr>gpio_write_ret := gpio_write_ret e, dust_aio_read_ret := dust_aio_read_ret e\<rparr>)"
    by simp
  then show ?case by blast
next
  case (Suc n)
  obtain v g d where v: "gp2y_read_dust_output_voltage_float e =
      (v, e\<lparr>gpio_write_ret := g, dust_aio_read_ret := d\<rparr>)" and pos: "0 \<le> v"
    using gp2y_read_dust_output_voltage_float_frame [of e] by blast
  obtain dc acc g' d' where
    "dust_sample_loop n
       (a\<lparr>dust_concentration := v, acc_dust_concentration := acc_dust_concentration a + v\<rparr>)
       (e\<lparr>gpio_write_ret := g, dust_aio_read_ret := d\<rparr>) =
     (a\<lparr>dust_concentration := v, acc_dust_concentration := acc_dust_concentration a + v\<rparr>
        \<lparr>dust_concentration := dc, acc_dust_concentration := acc\<rparr>,
      e\<lparr>gpio_write_ret := g, dust_aio_read_ret := d\<rparr>
        \<lparr>gpio_write_ret := g', dust_aio_read_ret := d'\<rparr>)"
    using Suc.IH by blast
  then have "dust_sample_loop (Suc n) a e =
     (a\<lparr>dust_concentration := dc, acc_dust_concentration := acc\<rparr>,
      e\<lparr>gpio_write_ret := g', dust_aio_read_ret := d'\<rparr>)"
    using v pos by simp
  then show ?case by blast
qed

lemma dust_sample_loop_err:
  "dust_data_coll_err (fst (dust_sample_loop n a e)) = dust_data_coll_err a"
proof -
  obtain dc acc g d where "dust_sample_loop n a e =
       (a\<lparr>dust_concentration := dc, acc_dust_concentration := acc\<rparr>,
        e\<lparr>gpio_write_ret := g, dust_aio_read_ret := d\<rparr>)"
    using dust_sample_loop_frame [of n a e] by blast
  then show ?thesis by simp
qed

lemma store_data_to_db_eq:
  "store_data_to_db sen_id sen_val e =
     (if db_ret e 0 = DB_OK
      then (SUCCESS, e\<lparr>db_ret := (\<lambda>n. db_ret e (Suc n)),
                       sensor_data := sensor_data e @ [(sen_id, sen_val)]\<rparr>)
      else (FAIL, e\<lparr>db_ret := (\<lambda>n. db_ret e (Suc n))\<rparr>))"
  by (cases "db_ret e 0") (simp_all add: store_data_to_db_def)

lemma FAIL_neq_SUCCESS: "SUCCESS \<noteq> FAIL"
  by (simp add: FAIL_def SUCCESS_def)

text \<open>
  The \<^verbatim>\<open>READ_DUST_CONCENTRATION\<close> case in one equation: the density of the mean of the
  batch is stored under sensor id 3, and the next state is \<^verbatim>\<open>READ_HUMIDITY\<close>, or the
  \<^verbatim>\<open>default\<close> case when the store fails.
\<close>

lemma case_READ_DUST_CONCENTRATION_eq:
  "\<exists>dc g d. case_READ_DUST_CONCENTRATION a e =
     (let acc = acc_dust_concentration (fst (dust_sample_loop 16
                  (a\<lparr>dust_data_coll_err := 0, acc_dust_concentration := 0\<rparr>) e));
          density = dust_density_of_voltage (acc / 16);
          a' = a\<lparr>dust_concentration := dc, acc_dust_concentration := density,
                 dust_data_coll_err := 0\<rparr>;
          e' = e\<lparr>gpio_write_ret := g, dust_aio_read_ret := d,
                 db_ret := (\<lambda>n. db_ret e (Suc n))\<rparr>
      in if db_ret e 0 = DB_OK
         then (a'\<lparr>state_index := READ_HUMIDITY\<rparr>,
               e'\<lparr>sensor_data := sensor_data e @ [(3, density)]\<rparr>)
         else (a'\<lparr>state_index := WAIT + 1\<rparr>, e'))"
proof -
  obtain dc acc g d where loop: "dust_sample_loop 16
        (a\<lparr>dust_data_coll_err := 0, acc_dust_concentration := 0\<rparr>) e =
       (a\<lparr>dust_data_coll_err := 0, acc_dust_concentration := 0\<rparr>
          \<lparr>dust_concentration := dc, acc_dust_concentration := acc\<rparr>,
        e\<lparr>gpio_write_ret := g, dust_aio_read_ret := d\<rparr>)"
    using dust_sample_loop_frame [of 16 "a\<lparr>dust_data_coll_err := 0, acc_dust_concentration := 0\<rparr>" e]
    by blast
  have "case_READ_DUST_CONCENTRATION a e =
     (let acc = acc_dust_concentration (fst (dust_sample_loop 16
                  (a\<lparr>dust_data_coll_err := 0, acc_dust_concentration := 0\<rparr>) e));
          density = dust_density_of_voltage (acc / 16);
          a' = a\<lparr>dust_concentration := dc, acc_dust_concentration := density,
                 dust_data_coll_err := 0\<rparr>;
          e' = e\<lparr>gpio_write_ret := g, dust_aio_read_ret := d,
                 db_ret := (\<lambda>n. db_ret e (Suc n))\<rparr>
      in if db_ret e 0 = DB_OK
         then (a'\<lparr>state_index := READ_HUMIDITY\<rparr>,
               e'\<lparr>sensor_data := sensor_data e @ [(3, density)]\<rparr>)
         else (a'\<lparr>state_index := WAIT + 1\<rparr>, e'))"
    unfolding case_READ_DUST_CONCENTRATION_def
    by (simp add: loop dust_sensor_max_sample_def NUM_OF_SENSORS_def store_data_to_db_eq
        FAIL_neq_SUCCESS Let_def)
  then show ?thesis by blast
qed

text \<open>One pass of the sampling loop, for evaluating the loop on a given environment.\<close>

lemma dust_sample_loop_numeral:
  "dust_sample_loop (numeral k) a e =
     dust_sample_loop (pred_numeral k)
       (if fst (gp2y_read_dust_output_voltage_float e) \<ge> 0
        then a\<lparr>dust_concentration := fst (gp2y_read_dust_output_voltage_float e),
               acc_dust_concentration :=
                 acc_dust_concentration a + fst (gp2y_read_dust_output_voltage_float e)\<rparr>
        else a\<lparr>dust_concentration := fst (gp2y_read_dust_output_voltage_float e),
               dust_data_coll_err := 1\<rparr>)
       (snd (gp2y_read_dust_output_voltage_float e))"
  by (simp add: numeral_eq_Suc split_beta Let_def)

text \<open>
  C9. \<^verbatim>\<open>gp2y_read_dust_output_voltage_float\<close> never returns a negative value: it
  returns 0.0 when one of its two pin writes fails, and \<open>(raw / 1023.0) * 5.0\<close> for the
  count \<open>raw\<close> it has read otherwise. So the sampling loop, however many samples it
  takes, never sets \<^verbatim>\<open>dust_data_coll_err\<close>: the flag is 0 after the
  \<^verbatim>\<open>READ_DUST_CONCENTRATION\<close> case, and that case leads to the \<^verbatim>\<open>default\<close> case only
  when the store fails.
\<close>

theorem gp2y_read_dust_output_voltage_float_nonneg:
  fixes e :: env and a :: app and n :: nat
  shows "0 \<le> fst (gp2y_read_dust_output_voltage_float e)
       \<and> (gpio_write_ret e 0 \<noteq> MRAA_SUCCESS \<or> gpio_write_ret e 1 \<noteq> MRAA_SUCCESS
            \<longrightarrow> fst (gp2y_read_dust_output_voltage_float e) = 0.0)
       \<and> (gpio_write_ret e 0 = MRAA_SUCCESS \<and> gpio_write_ret e 1 = MRAA_SUCCESS
            \<longrightarrow> fst (gp2y_read_dust_output_voltage_float e) =
                (real (unat (dust_aio_read_ret e 0)) / 1023.0) * 5.0)
       \<and> dust_data_coll_err (fst (dust_sample_loop n (a\<lparr>dust_data_coll_err := 0\<rparr>) e)) = 0
       \<and> dust_data_coll_err (fst (case_READ_DUST_CONCENTRATION a e)) = 0
       \<and> state_index (fst (case_READ_DUST_CONCENTRATION a e)) =
           (if db_ret e 0 = DB_OK then READ_HUMIDITY else WAIT + 1)"
proof -
  have 1: "0 \<le> fst (gp2y_read_dust_output_voltage_float e)"
    using gp2y_read_dust_output_voltage_float_frame [of e] by auto
  have 2: "gpio_write_ret e 0 \<noteq> MRAA_SUCCESS \<or> gpio_write_ret e 1 \<noteq> MRAA_SUCCESS
           \<longrightarrow> fst (gp2y_read_dust_output_voltage_float e) = 0.0"
    by (simp add: gp2y_read_dust_output_voltage_float_eq)
  have 3: "gpio_write_ret e 0 = MRAA_SUCCESS \<and> gpio_write_ret e 1 = MRAA_SUCCESS
           \<longrightarrow> fst (gp2y_read_dust_output_voltage_float e) =
               (real (unat (dust_aio_read_ret e 0)) / 1023.0) * 5.0"
    by (simp add: gp2y_read_dust_output_voltage_float_eq)
  have 4: "dust_data_coll_err (fst (dust_sample_loop n (a\<lparr>dust_data_coll_err := 0\<rparr>) e)) = 0"
    by (simp add: dust_sample_loop_err)
  obtain dc g d where c: "case_READ_DUST_CONCENTRATION a e =
     (let acc = acc_dust_concentration (fst (dust_sample_loop 16
                  (a\<lparr>dust_data_coll_err := 0, acc_dust_concentration := 0\<rparr>) e));
          density = dust_density_of_voltage (acc / 16);
          a' = a\<lparr>dust_concentration := dc, acc_dust_concentration := density,
                 dust_data_coll_err := 0\<rparr>;
          e' = e\<lparr>gpio_write_ret := g, dust_aio_read_ret := d,
                 db_ret := (\<lambda>n. db_ret e (Suc n))\<rparr>
      in if db_ret e 0 = DB_OK
         then (a'\<lparr>state_index := READ_HUMIDITY\<rparr>,
               e'\<lparr>sensor_data := sensor_data e @ [(3, density)]\<rparr>)
         else (a'\<lparr>state_index := WAIT + 1\<rparr>, e'))"
    using case_READ_DUST_CONCENTRATION_eq [of a e] by blast
  have 5: "dust_data_coll_err (fst (case_READ_DUST_CONCENTRATION a e)) = 0"
    by (simp add: c Let_def)
  have 6: "state_index (fst (case_READ_DUST_CONCENTRATION a e)) =
           (if db_ret e 0 = DB_OK then READ_HUMIDITY else WAIT + 1)"
    by (simp add: c Let_def)
  show ?thesis
    using 1 2 3 4 5 6 by blast
qed

text \<open>
  The theorem where every pin write fails, and where every call succeeds and the pin
  reads 2046 (10 volts).
\<close>

theorem gp2y_read_dust_output_voltage_float_nonneg_witness:
  "gpio_write_ret ((example_env frame_0190)\<lparr>gpio_write_ret := (\<lambda>n. MRAA_ERROR_OTHER)\<rparr>) 0
     \<noteq> MRAA_SUCCESS
   \<and> fst (gp2y_read_dust_output_voltage_float
            ((example_env frame_0190)\<lparr>gpio_write_ret := (\<lambda>n. MRAA_ERROR_OTHER)\<rparr>)) = 0.0
   \<and> gpio_write_ret (example_env frame_0190) 0 = MRAA_SUCCESS
   \<and> gpio_write_ret (example_env frame_0190) 1 = MRAA_SUCCESS
   \<and> fst (gp2y_read_dust_output_voltage_float (example_env frame_0190)) = 10.0
   \<and> state_index (fst (case_READ_DUST_CONCENTRATION app_init (example_env frame_0190))) =
       READ_HUMIDITY"
  using gp2y_read_dust_output_voltage_float_nonneg
      [of "(example_env frame_0190)\<lparr>gpio_write_ret := (\<lambda>n. MRAA_ERROR_OTHER)\<rparr>" 0 app_init]
    gp2y_read_dust_output_voltage_float_nonneg [of "example_env frame_0190" 0 app_init]
  by (simp add: example_env_def)

text \<open>The batch of the example environment: sixteen samples of 10 volts.\<close>

lemma example_env_batch:
  "acc_dust_concentration (fst (dust_sample_loop 16
      (app_init\<lparr>dust_data_coll_err := 0, acc_dust_concentration := 0\<rparr>)
      (example_env frame))) = 160"
  by (simp add: dust_sample_loop_numeral gp2y_read_dust_output_voltage_float_eq
      example_env_def app_init_def)

text \<open>
  C2. The response curve has three branches: a mean voltage \<open>m \<le> 0.6\<close> gives density
  0.0, a mean with \<open>0.6 < m \<le> 3.5\<close> gives \<open>(m - 0.6) / 5.8\<close>, and a mean above 3.5
  gives 0.6; so 3.5 gives \<open>(3.5 - 0.6) / 5.8\<close> and 10.0 gives 0.6. The density the
  \<^verbatim>\<open>READ_DUST_CONCENTRATION\<close> case stores (under sensor id 3, when the store succeeds)
  is the curve's value at the mean of the sixteen samples.
\<close>

theorem dust_density_of_voltage_branches:
  fixes m :: real and a :: app and e :: env
  shows "(m \<le> 0.6 \<longrightarrow> dust_density_of_voltage m = 0.0)
       \<and> (0.6 < m \<and> m \<le> 3.5 \<longrightarrow> dust_density_of_voltage m = (m - 0.6) / 5.8)
       \<and> (m > 3.5 \<longrightarrow> dust_density_of_voltage m = 0.6)
       \<and> dust_density_of_voltage 3.5 = (3.5 - 0.6) / 5.8
       \<and> dust_density_of_voltage 10.0 = 0.6
       \<and> (db_ret e 0 = DB_OK \<longrightarrow>
            sensor_data (snd (case_READ_DUST_CONCENTRATION a e)) =
              sensor_data e @
              [(3, dust_density_of_voltage
                     (acc_dust_concentration
                        (fst (dust_sample_loop 16
                           (a\<lparr>dust_data_coll_err := 0, acc_dust_concentration := 0.0\<rparr>) e))
                      / 16))])"
proof -
  have 1: "m \<le> 0.6 \<longrightarrow> dust_density_of_voltage m = 0.0"
    by (simp add: dust_density_of_voltage_def)
  have 2: "0.6 < m \<and> m \<le> 3.5 \<longrightarrow> dust_density_of_voltage m = (m - 0.6) / 5.8"
    by (simp add: dust_density_of_voltage_def)
  have 3: "m > 3.5 \<longrightarrow> dust_density_of_voltage m = 0.6"
    by (simp add: dust_density_of_voltage_def)
  have 4: "dust_density_of_voltage 3.5 = (3.5 - 0.6) / 5.8"
    by (simp add: dust_density_of_voltage_def)
  have 5: "dust_density_of_voltage 10.0 = 0.6"
    by (simp add: dust_density_of_voltage_def)
  obtain dc g d where c: "case_READ_DUST_CONCENTRATION a e =
     (let acc = acc_dust_concentration (fst (dust_sample_loop 16
                  (a\<lparr>dust_data_coll_err := 0, acc_dust_concentration := 0\<rparr>) e));
          density = dust_density_of_voltage (acc / 16);
          a' = a\<lparr>dust_concentration := dc, acc_dust_concentration := density,
                 dust_data_coll_err := 0\<rparr>;
          e' = e\<lparr>gpio_write_ret := g, dust_aio_read_ret := d,
                 db_ret := (\<lambda>n. db_ret e (Suc n))\<rparr>
      in if db_ret e 0 = DB_OK
         then (a'\<lparr>state_index := READ_HUMIDITY\<rparr>,
               e'\<lparr>sensor_data := sensor_data e @ [(3, density)]\<rparr>)
         else (a'\<lparr>state_index := WAIT + 1\<rparr>, e'))"
    using case_READ_DUST_CONCENTRATION_eq [of a e] by blast
  have 6: "db_ret e 0 = DB_OK \<longrightarrow>
            sensor_data (snd (case_READ_DUST_CONCENTRATION a e)) =
              sensor_data e @
              [(3, dust_density_of_voltage
                     (acc_dust_concentration
                        (fst (dust_sample_loop 16
                           (a\<lparr>dust_data_coll_err := 0, acc_dust_concentration := 0.0\<rparr>) e))
                      / 16))]"
    by (simp add: c Let_def)
  show ?thesis
    using 1 2 3 4 5 6 by blast
qed

text \<open>
  The theorem at the means 0.5, 2.0 and 10.0, one for each branch, and at the example
  environment, whose batch has mean 10.0.
\<close>

theorem dust_density_of_voltage_branches_witness:
  "(0.5::real) \<le> 0.6 \<and> dust_density_of_voltage 0.5 = 0.0
   \<and> (0.6::real) < 2.0 \<and> (2.0::real) \<le> 3.5 \<and> dust_density_of_voltage 2.0 = (2.0 - 0.6) / 5.8
   \<and> (10.0::real) > 3.5 \<and> dust_density_of_voltage 10.0 = 0.6
   \<and> db_ret (example_env frame_0190) 0 = DB_OK
   \<and> sensor_data (snd (case_READ_DUST_CONCENTRATION app_init (example_env frame_0190))) =
       [(3, 0.6)]"
proof -
  have db: "db_ret (example_env frame_0190) 0 = DB_OK"
    and rows: "sensor_data (example_env frame_0190) = []"
    by (simp_all add: example_env_def)
  show ?thesis
    using dust_density_of_voltage_branches [of "0.5" "example_env frame_0190" app_init]
      dust_density_of_voltage_branches [of "2.0" "example_env frame_0190" app_init]
      dust_density_of_voltage_branches [of "10.0" "example_env frame_0190" app_init]
    by (simp add: example_env_batch db rows)
qed

text \<open>
  C3 does not hold of the program. In the environment below the first pin write of the
  first sample fails and every other call succeeds. The reader returns 0.0 for the failed
  sample, which the loop adds like any other, so the batch is averaged (150 volts over
  16 samples), its density 0.6 is stored under sensor id 3, and the next state is
  \<^verbatim>\<open>READ_HUMIDITY\<close>.
\<close>

theorem dust_batch_pin_failure_persisted:
  "gpio_write_ret
     ((example_env frame_0190)
        \<lparr>gpio_write_ret := (\<lambda>n. if n = 0 then MRAA_ERROR_OTHER else MRAA_SUCCESS)\<rparr>) 0
     = MRAA_ERROR_OTHER
   \<and> fst (gp2y_read_dust_output_voltage_float
        ((example_env frame_0190)
           \<lparr>gpio_write_ret := (\<lambda>n. if n = 0 then MRAA_ERROR_OTHER else MRAA_SUCCESS)\<rparr>))
     = 0.0
   \<and> state_index (fst (case_READ_DUST_CONCENTRATION app_init
        ((example_env frame_0190)
           \<lparr>gpio_write_ret := (\<lambda>n. if n = 0 then MRAA_ERROR_OTHER else MRAA_SUCCESS)\<rparr>)))
     = READ_HUMIDITY
   \<and> sensor_data (snd (case_READ_DUST_CONCENTRATION app_init
        ((example_env frame_0190)
           \<lparr>gpio_write_ret := (\<lambda>n. if n = 0 then MRAA_ERROR_OTHER else MRAA_SUCCESS)\<rparr>)))
     = [(3, 0.6)]"
proof -
  define E where "E = (example_env frame_0190)
        \<lparr>gpio_write_ret := (\<lambda>n. if n = 0 then MRAA_ERROR_OTHER else MRAA_SUCCESS)\<rparr>"
  have batch: "acc_dust_concentration (fst (dust_sample_loop 16
      (app_init\<lparr>dust_data_coll_err := 0, acc_dust_concentration := 0\<rparr>) E)) = 150"
    by (simp add: E_def dust_sample_loop_numeral gp2y_read_dust_output_voltage_float_eq
        example_env_def app_init_def)
  have db: "db_ret E 0 = DB_OK" and rows: "sensor_data E = []"
    and wr: "gpio_write_ret E 0 = MRAA_ERROR_OTHER"
    by (simp_all add: E_def example_env_def)
  obtain dc g d where c: "case_READ_DUST_CONCENTRATION app_init E =
     (let acc = acc_dust_concentration (fst (dust_sample_loop 16
                  (app_init\<lparr>dust_data_coll_err := 0, acc_dust_concentration := 0\<rparr>) E));
          density = dust_density_of_voltage (acc / 16);
          a' = app_init\<lparr>dust_concentration := dc, acc_dust_concentration := density,
                 dust_data_coll_err := 0\<rparr>;
          e' = E\<lparr>gpio_write_ret := g, dust_aio_read_ret := d,
                 db_ret := (\<lambda>n. db_ret E (Suc n))\<rparr>
      in if db_ret E 0 = DB_OK
         then (a'\<lparr>state_index := READ_HUMIDITY\<rparr>,
               e'\<lparr>sensor_data := sensor_data E @ [(3, density)]\<rparr>)
         else (a'\<lparr>state_index := WAIT + 1\<rparr>, e'))"
    using case_READ_DUST_CONCENTRATION_eq [of app_init E] by blast
  have 1: "fst (gp2y_read_dust_output_voltage_float E) = 0.0"
    by (simp add: gp2y_read_dust_output_voltage_float_eq wr)
  have 2: "state_index (fst (case_READ_DUST_CONCENTRATION app_init E)) = READ_HUMIDITY"
    by (simp add: c Let_def db)
  have 3: "sensor_data (snd (case_READ_DUST_CONCENTRATION app_init E)) = [(3, 0.6)]"
    by (simp add: c Let_def db rows batch dust_density_of_voltage_def)
  show ?thesis
    using wr 1 2 3 unfolding E_def by blast
qed

subsection \<open>The humidity sampler\<close>

text \<open>
  C6. For a raw count of at most 1023, \<^verbatim>\<open>hsm_read_humidity_float\<close> returns
  \<open>1.253 v\<^sup>2 + 25.931 v - 7.542\<close> for the voltage \<open>v = raw / 1023.0 * 5.0\<close>; at the
  voltage 2.0 the quadratic is 49.332. The function takes one sample from the pin and
  does nothing else to the environment: it has no failure path, batch or retry.
\<close>

theorem hsm_read_humidity_float_formula:
  fixes e :: env
  shows "(unat (hsm_aio_read_ret e 0) \<le> 1023 \<longrightarrow>
            (let v = real (unat (hsm_aio_read_ret e 0)) / 1023.0 * 5.0
             in fst (hsm_read_humidity_float e) = 1.253 * v ^ 2 + 25.931 * v - 7.542))
       \<and> hsm_humidity_of_voltage 2.0 = 49.332
       \<and> snd (hsm_read_humidity_float e) =
           e\<lparr>hsm_aio_read_ret := (\<lambda>n. hsm_aio_read_ret e (Suc n))\<rparr>"
  by (simp add: hsm_read_humidity_float_def hsm_humidity_of_voltage_def mraa_aio_read_hsm_def
      Let_def power2_eq_square)

text \<open>The theorem at the example environment, whose pin reads 400.\<close>

theorem hsm_read_humidity_float_formula_witness:
  "unat (hsm_aio_read_ret (example_env frame_0190) 0) \<le> 1023
   \<and> fst (hsm_read_humidity_float (example_env frame_0190)) =
       1.253 * (2000 / 1023) ^ 2 + 25.931 * (2000 / 1023) - 7.542"
  using hsm_read_humidity_float_formula [of "example_env frame_0190"]
  by (simp add: example_env_def Let_def)

subsection \<open>The state machine\<close>

text \<open>The empty loop \<^verbatim>\<open>while(1);\<close> changes nothing, however long it runs.\<close>

lemma spin_eq: "spin n a e = (a, e)"
  by (induction n) simp_all

text \<open>One pass of \<^verbatim>\<open>for ( ; ; )\<close>, with the result of each case taken apart.\<close>

lemma main_loop_Suc:
  "main_loop (Suc n) a e =
     (if state_index a = NONE then
        main_loop n (fst (case_NONE a e)) (snd (case_NONE a e))
      else if state_index a = START_CONV then
        main_loop n (fst (case_START_CONV a e)) (snd (case_START_CONV a e))
      else if state_index a = WAIT_TILL_CONV_FINISHED then
        main_loop n (fst (case_WAIT_TILL_CONV_FINISHED a e))
          (snd (case_WAIT_TILL_CONV_FINISHED a e))
      else if state_index a = READ_TEMP then
        main_loop n (fst (case_READ_TEMP a e)) (snd (case_READ_TEMP a e))
      else if state_index a = READ_DUST_CONCENTRATION then
        main_loop n (fst (case_READ_DUST_CONCENTRATION a e))
          (snd (case_READ_DUST_CONCENTRATION a e))
      else if state_index a = READ_HUMIDITY then
        main_loop n (fst (case_READ_HUMIDITY a e)) (snd (case_READ_HUMIDITY a e))
      else if state_index a = WAIT then
        main_loop n (fst (case_WAIT a e)) (snd (case_WAIT a e))
      else case_default a e)"
  by (simp add: split_beta spin_eq)

declare main_loop.simps(2) [simp del]

lemma main_loop_numeral:
  "main_loop (numeral k) a e =
     (if state_index a = NONE then
        main_loop (pred_numeral k) (fst (case_NONE a e)) (snd (case_NONE a e))
      else if state_index a = START_CONV then
        main_loop (pred_numeral k) (fst (case_START_CONV a e)) (snd (case_START_CONV a e))
      else if state_index a = WAIT_TILL_CONV_FINISHED then
        main_loop (pred_numeral k) (fst (case_WAIT_TILL_CONV_FINISHED a e))
          (snd (case_WAIT_TILL_CONV_FINISHED a e))
      else if state_index a = READ_TEMP then
        main_loop (pred_numeral k) (fst (case_READ_TEMP a e)) (snd (case_READ_TEMP a e))
      else if state_index a = READ_DUST_CONCENTRATION then
        main_loop (pred_numeral k) (fst (case_READ_DUST_CONCENTRATION a e))
          (snd (case_READ_DUST_CONCENTRATION a e))
      else if state_index a = READ_HUMIDITY then
        main_loop (pred_numeral k) (fst (case_READ_HUMIDITY a e)) (snd (case_READ_HUMIDITY a e))
      else if state_index a = WAIT then
        main_loop (pred_numeral k) (fst (case_WAIT a e)) (snd (case_WAIT a e))
      else case_default a e)"
  unfolding numeral_eq_Suc main_loop_Suc ..

text \<open>The \<^verbatim>\<open>READ_TEMP\<close> and \<^verbatim>\<open>READ_HUMIDITY\<close> cases in one equation each.\<close>

lemma case_READ_TEMP_eq:
  "case_READ_TEMP a e =
     (let crc_ok = (uart_ow_crc8 e (map (uart_ow_read_byte_ret e) [0..<8]) =
                      uart_ow_read_byte_ret e 8);
          t = (if crc_ok
               then real_of_int (sint (push_bit 8 (ucast (uart_ow_read_byte_ret e 1) :: int16_t)
                                         OR ucast (uart_ow_read_byte_ret e 0))) * 0.0625
               else temp a);
          e1 = e\<lparr>ow_commands := ow_commands e @
                    [(CMD_READ_SCRATCHPAD, ds18b20_addr a ! unat (sen_count a))],
                 uart_ow_read_byte_ret := (\<lambda>k. uart_ow_read_byte_ret e (k + 9))\<rparr>;
          a1 = a\<lparr>sen_count := sen_count a + 1, temp := t\<rparr>
      in if \<not> crc_ok then (a1\<lparr>state_index := WAIT + 1\<rparr>, e1)
         else if db_ret e 0 \<noteq> DB_OK
         then (a1\<lparr>state_index := WAIT + 1\<rparr>, e1\<lparr>db_ret := (\<lambda>n. db_ret e (Suc n))\<rparr>)
         else (if uint (sen_count a + 1) \<ge> 2
               then a1\<lparr>sen_count := 0, state_index := READ_DUST_CONCENTRATION\<rparr>
               else a1\<lparr>state_index := START_CONV\<rparr>,
               e1\<lparr>db_ret := (\<lambda>n. db_ret e (Suc n)),
                  sensor_data := sensor_data e @ [(sen_count a + 1, t)]\<rparr>))"
  by (simp add: case_READ_TEMP_def ds18b20_read_temp_float_eq store_data_to_db_eq
      FAIL_neq_SUCCESS FAIL_neq_SUCCESS [symmetric] NUM_OF_SENSORS_def Let_def)

lemma case_READ_HUMIDITY_eq:
  "case_READ_HUMIDITY a e =
     (let h = hsm_humidity_of_voltage (real (unat (hsm_aio_read_ret e 0)) / 1023 * 5);
          a1 = a\<lparr>humidity := h\<rparr>;
          e1 = e\<lparr>hsm_aio_read_ret := (\<lambda>n. hsm_aio_read_ret e (Suc n)),
                 db_ret := (\<lambda>n. db_ret e (Suc n))\<rparr>
      in if db_ret e 0 = DB_OK
         then (a1\<lparr>state_index := WAIT\<rparr>, e1\<lparr>sensor_data := sensor_data e @ [(4, h)]\<rparr>)
         else (a1\<lparr>state_index := WAIT + 1\<rparr>, e1))"
  by (simp add: case_READ_HUMIDITY_def hsm_read_humidity_float_def mraa_aio_read_hsm_def
      store_data_to_db_eq FAIL_neq_SUCCESS NUM_OF_SENSORS_def Let_def)

text \<open>What the \<^verbatim>\<open>READ_DUST_CONCENTRATION\<close> case leaves untouched, and what it changes.\<close>

lemma case_READ_DUST_CONCENTRATION_frame:
  "sen_count (fst (case_READ_DUST_CONCENTRATION a e)) = sen_count a
   \<and> uart_ow_read_byte_ret (snd (case_READ_DUST_CONCENTRATION a e)) = uart_ow_read_byte_ret e
   \<and> uart_ow_crc8 (snd (case_READ_DUST_CONCENTRATION a e)) = uart_ow_crc8 e
   \<and> hsm_aio_read_ret (snd (case_READ_DUST_CONCENTRATION a e)) = hsm_aio_read_ret e
   \<and> db_ret (snd (case_READ_DUST_CONCENTRATION a e)) = (\<lambda>n. db_ret e (Suc n))
   \<and> state_index (fst (case_READ_DUST_CONCENTRATION a e)) =
       (if db_ret e 0 = DB_OK then READ_HUMIDITY else WAIT + 1)
   \<and> map fst (sensor_data (snd (case_READ_DUST_CONCENTRATION a e))) =
       (if db_ret e 0 = DB_OK then map fst (sensor_data e) @ [3] else map fst (sensor_data e))"
proof -
  obtain dc g d where c: "case_READ_DUST_CONCENTRATION a e =
     (let acc = acc_dust_concentration (fst (dust_sample_loop 16
                  (a\<lparr>dust_data_coll_err := 0, acc_dust_concentration := 0\<rparr>) e));
          density = dust_density_of_voltage (acc / 16);
          a' = a\<lparr>dust_concentration := dc, acc_dust_concentration := density,
                 dust_data_coll_err := 0\<rparr>;
          e' = e\<lparr>gpio_write_ret := g, dust_aio_read_ret := d,
                 db_ret := (\<lambda>n. db_ret e (Suc n))\<rparr>
      in if db_ret e 0 = DB_OK
         then (a'\<lparr>state_index := READ_HUMIDITY\<rparr>,
               e'\<lparr>sensor_data := sensor_data e @ [(3, density)]\<rparr>)
         else (a'\<lparr>state_index := WAIT + 1\<rparr>, e'))"
    using case_READ_DUST_CONCENTRATION_eq [of a e] by blast
  show ?thesis
    by (simp add: c Let_def)
qed

text \<open>
  One acquisition cycle, nine passes from \<^verbatim>\<open>START_CONV\<close> with \<^verbatim>\<open>sen_count\<close> 0: when both
  frames pass the CRC and the four stores succeed, the machine is back in
  \<^verbatim>\<open>START_CONV\<close> with \<^verbatim>\<open>sen_count\<close> 0, and the ids 1, 2, 3, 4 have been stored in
  this order.
\<close>

lemma acquisition_cycle:
  assumes st: "state_index a = START_CONV" and sc: "sen_count a = 0"
    and crc0: "uart_ow_crc8 e (map (uart_ow_read_byte_ret e) [0..<8]) =
               uart_ow_read_byte_ret e 8"
    and crc1: "uart_ow_crc8 e (map (\<lambda>j. uart_ow_read_byte_ret e (j + 9)) [0..<8]) =
               uart_ow_read_byte_ret e 17"
    and db: "db_ret e 0 = DB_OK" "db_ret e (Suc 0) = DB_OK" "db_ret e (Suc (Suc 0)) = DB_OK"
      "db_ret e (Suc (Suc (Suc 0))) = DB_OK"
  shows "state_index (fst (main_loop 9 a e)) = START_CONV
       \<and> sen_count (fst (main_loop 9 a e)) = 0
       \<and> map fst (sensor_data (snd (main_loop 9 a e))) = map fst (sensor_data e) @ [1, 2, 3, 4]
       \<and> uart_ow_read_byte_ret (snd (main_loop 9 a e)) = (\<lambda>k. uart_ow_read_byte_ret e (18 + k))
       \<and> db_ret (snd (main_loop 9 a e)) = (\<lambda>k. db_ret e (Suc (Suc (Suc (Suc k)))))
       \<and> uart_ow_crc8 (snd (main_loop 9 a e)) = uart_ow_crc8 e"
  using st sc crc0 crc1 db
  by (simp add: main_loop_numeral main_loop_Suc app_states_defs case_START_CONV_def
      ds18b20_update_def
      mraa_uart_ow_command_def case_WAIT_TILL_CONV_FINISHED_def case_READ_TEMP_eq
      case_READ_DUST_CONCENTRATION_frame case_READ_HUMIDITY_eq case_WAIT_def Let_def)

text \<open>The \<^verbatim>\<open>default\<close> case: running it again changes nothing more.\<close>

lemma case_default_idem:
  "case_default (fst (case_default a e)) (snd (case_default a e)) = case_default a e"
  by (simp add: case_default_def mraa_uart_ow_stop_def mraa_aio_close_hsm_def
      mraa_aio_close_dust_def mraa_gpio_close_def)

lemma case_default_state: "fst (case_default a e) = a"
  by (simp add: case_default_def)

lemma main_loop_default:
  assumes "state_index a < NONE \<or> WAIT < state_index a"
  shows "main_loop (Suc n) a e = case_default a e"
  using assms by (auto simp add: main_loop_Suc app_states_defs)

lemma main_loop_default_fixed:
  assumes "state_index a < NONE \<or> WAIT < state_index a"
  shows "main_loop n (fst (case_default a e)) (snd (case_default a e)) = case_default a e"
proof (cases n)
  case 0
  then show ?thesis by simp
next
  case (Suc m)
  have "state_index (fst (case_default a e)) < NONE \<or> WAIT < state_index (fst (case_default a e))"
    using assms by (simp add: case_default_state)
  then show ?thesis
    unfolding Suc by (simp only: main_loop_default case_default_idem)
qed

text \<open>Running \<open>m + n\<close> passes is running \<open>m\<close> passes and then \<open>n\<close> more.\<close>

lemma main_loop_add:
  "main_loop (m + n) a e = main_loop n (fst (main_loop m a e)) (snd (main_loop m a e))"
proof (induction m arbitrary: a e)
  case 0
  show ?case by simp
next
  case (Suc m)
  show ?case
  proof (cases "state_index a < NONE \<or> WAIT < state_index a")
    case True
    then show ?thesis
      by (simp only: add_Suc main_loop_default main_loop_default_fixed)
  next
    case False
    then have "state_index a = NONE \<or> state_index a = START_CONV
        \<or> state_index a = WAIT_TILL_CONV_FINISHED \<or> state_index a = READ_TEMP
        \<or> state_index a = READ_DUST_CONCENTRATION \<or> state_index a = READ_HUMIDITY
        \<or> state_index a = WAIT"
      unfolding app_states_defs by arith
    then show ?thesis
      unfolding add_Suc main_loop_Suc [of "m + n"] main_loop_Suc [of m]
      by (auto simp add: Suc.IH)
  qed
qed

text \<open>
  The ids over \<open>k\<close> cycles from \<^verbatim>\<open>START_CONV\<close> with \<^verbatim>\<open>sen_count\<close> 0, every frame passing
  its CRC and every store succeeding: 1, 2, 3, 4 for each cycle, and the machine is
  again in \<^verbatim>\<open>START_CONV\<close> with \<^verbatim>\<open>sen_count\<close> 0.
\<close>

lemma acquisition_cycles_ids:
  fixes a :: app and e :: env and k :: nat
  assumes st: "state_index a = START_CONV" and sc: "sen_count a = 0"
    and crc: "\<forall>i<2 * k. uart_ow_crc8 e (map (\<lambda>j. uart_ow_read_byte_ret e (9 * i + j)) [0..<8]) =
                        uart_ow_read_byte_ret e (9 * i + 8)"
    and db: "\<forall>i<4 * k. db_ret e i = DB_OK"
  shows "map fst (sensor_data (snd (main_loop (9 * k) a e))) =
           map fst (sensor_data e) @ concat (replicate k [1, 2, 3, 4])
       \<and> state_index (fst (main_loop (9 * k) a e)) = START_CONV
       \<and> sen_count (fst (main_loop (9 * k) a e)) = 0"
  using st sc crc db
proof (induction k arbitrary: a e)
  case 0
  then show ?case by simp
next
  case (Suc k)
  have crc0: "uart_ow_crc8 e (map (uart_ow_read_byte_ret e) [0..<8]) = uart_ow_read_byte_ret e 8"
    using Suc.prems(3) [rule_format, of 0] by simp
  have crc1: "uart_ow_crc8 e (map (\<lambda>j. uart_ow_read_byte_ret e (j + 9)) [0..<8]) =
              uart_ow_read_byte_ret e 17"
    using Suc.prems(3) [rule_format, of 1] by (simp add: add.commute)
  have db0: "db_ret e 0 = DB_OK" and db1: "db_ret e (Suc 0) = DB_OK"
    and db2: "db_ret e (Suc (Suc 0)) = DB_OK" and db3: "db_ret e (Suc (Suc (Suc 0))) = DB_OK"
    using Suc.prems(4) by simp_all
  define a' where "a' = fst (main_loop 9 a e)"
  define e' where "e' = snd (main_loop 9 a e)"
  have cyc: "state_index a' = START_CONV" "sen_count a' = 0"
    "map fst (sensor_data e') = map fst (sensor_data e) @ [1, 2, 3, 4]"
    "uart_ow_read_byte_ret e' = (\<lambda>k. uart_ow_read_byte_ret e (18 + k))"
    "db_ret e' = (\<lambda>k. db_ret e (Suc (Suc (Suc (Suc k)))))"
    "uart_ow_crc8 e' = uart_ow_crc8 e"
    unfolding a'_def e'_def
    using acquisition_cycle [OF Suc.prems(1) Suc.prems(2) crc0 crc1 db0 db1 db2 db3]
    by simp_all
  have crc': "\<forall>i<2 * k. uart_ow_crc8 e' (map (\<lambda>j. uart_ow_read_byte_ret e' (9 * i + j)) [0..<8]) =
                        uart_ow_read_byte_ret e' (9 * i + 8)"
  proof (intro allI impI)
    fix i
    assume "i < 2 * k"
    then have "i + 2 < 2 * Suc k"
      by simp
    then have "uart_ow_crc8 e (map (\<lambda>j. uart_ow_read_byte_ret e (9 * (i + 2) + j)) [0..<8]) =
               uart_ow_read_byte_ret e (9 * (i + 2) + 8)"
      using Suc.prems(3) by blast
    then show "uart_ow_crc8 e' (map (\<lambda>j. uart_ow_read_byte_ret e' (9 * i + j)) [0..<8]) =
               uart_ow_read_byte_ret e' (9 * i + 8)"
      by (simp add: cyc(4) cyc(6) algebra_simps)
  qed
  have db': "\<forall>i<4 * k. db_ret e' i = DB_OK"
  proof (intro allI impI)
    fix i
    assume "i < 4 * k"
    then have "Suc (Suc (Suc (Suc i))) < 4 * Suc k"
      by simp
    then show "db_ret e' i = DB_OK"
      using Suc.prems(4) by (simp add: cyc(5))
  qed
  have split: "main_loop (9 * Suc k) a e = main_loop (9 * k) a' e'"
    using main_loop_add [of 9 "9 * k" a e] by (simp add: a'_def e'_def)
  have ih: "map fst (sensor_data (snd (main_loop (9 * k) a' e'))) =
              map fst (sensor_data e') @ concat (replicate k [1, 2, 3, 4])
          \<and> state_index (fst (main_loop (9 * k) a' e')) = START_CONV
          \<and> sen_count (fst (main_loop (9 * k) a' e')) = 0"
    using Suc.IH [OF cyc(1) cyc(2) crc' db'] .
  show ?case
    unfolding split using ih by (simp add: cyc(3))
qed

subsection \<open>Start-up and the \<^verbatim>\<open>default\<close> case\<close>

declare search_loop.simps [simp del]

text \<open>Start-up in an example environment: both probes are found and all handles are held.\<close>

lemma example_env_startup:
  "main_startup app_init (example_env frame) =
     (None,
      app_init\<lparr>ds18b20_addr := [[0x28, 0, 0, 0, 0, 0, 0, 0], [0x28, 1, 0, 0, 0, 0, 0, 0]]\<rparr>,
      (example_env frame)
        \<lparr>uart_ow_rom_search_ret := (\<lambda>n. (MRAA_SUCCESS, [0x28, 2 + of_nat n, 0, 0, 0, 0, 0, 0])),
         uart_ow_open := True, dust_gpio_open := True, dust_aio_open := True,
         hsm_aio_open := True\<rparr>)"
  by (simp add: main_startup_def app_init_def example_env_def search_loop.simps Let_def
      mraa_uart_ow_rom_search_def mraa_uart_ow_stop_def NUM_OF_SENSORS_def
      DS18B20_ADDR_LEN_def dust_aio_in_def hsm_aio_in_def NONE_def numeral_2_eq_2)

text \<open>
  C8, as amended. The \<^verbatim>\<open>default\<close> case is terminal: from a state whose
  \<^verbatim>\<open>state_index\<close> is no enumerator (the program stores \<^verbatim>\<open>WAIT + 1\<close>), any number of
  further passes leaves the variables as they are, so no acquisition state is entered
  again and nothing more is stored. On entering it the program gives back the GPIO, both
  AIO handles and the one-wire UART, and then spins.
\<close>

theorem default_case_terminal:
  fixes a :: app and e :: env and n :: nat
  assumes "state_index a < NONE \<or> WAIT < state_index a"
  shows "main_loop (Suc n) a e =
           (a, e\<lparr>uart_ow_open := False, dust_gpio_open := False, dust_aio_open := False,
                 hsm_aio_open := False\<rparr>)"
  using assms
  by (simp add: main_loop_default case_default_def mraa_uart_ow_stop_def
      mraa_aio_close_hsm_def mraa_aio_close_dust_def mraa_gpio_close_def)

text \<open>The theorem at \<^verbatim>\<open>WAIT + 1\<close>, with all four handles held, for 1001 passes.\<close>

theorem default_case_terminal_witness:
  "WAIT < state_index (app_init\<lparr>state_index := WAIT + 1\<rparr>)
   \<and> main_loop (Suc 1000) (app_init\<lparr>state_index := WAIT + 1\<rparr>)
        ((example_env frame_0190)\<lparr>uart_ow_open := True, dust_gpio_open := True,
                                   dust_aio_open := True, hsm_aio_open := True\<rparr>) =
       (app_init\<lparr>state_index := WAIT + 1\<rparr>, example_env frame_0190)"
  using default_case_terminal [of "app_init\<lparr>state_index := WAIT + 1\<rparr>" 1000
      "(example_env frame_0190)\<lparr>uart_ow_open := True, dust_gpio_open := True,
                                 dust_aio_open := True, hsm_aio_open := True\<rparr>"]
  by (simp add: app_init_def example_env_def WAIT_def NONE_def)

text \<open>
  C8 as stated fails: with the corrupted frame on the bus, \<^verbatim>\<open>main\<close> reaches the
  \<^verbatim>\<open>default\<close> case after four passes with all four handles held, and after the fifth
  pass, that of the \<^verbatim>\<open>default\<close> case, none of them is held.
\<close>

theorem default_case_releases_handles_counterexample:
  "fst (main 4 (example_env frame_corrupted)) = None
   \<and> state_index (fst (snd (main 4 (example_env frame_corrupted)))) = WAIT + 1
   \<and> uart_ow_open (snd (snd (main 4 (example_env frame_corrupted))))
   \<and> dust_gpio_open (snd (snd (main 4 (example_env frame_corrupted))))
   \<and> dust_aio_open (snd (snd (main 4 (example_env frame_corrupted))))
   \<and> hsm_aio_open (snd (snd (main 4 (example_env frame_corrupted))))
   \<and> state_index (fst (snd (main 5 (example_env frame_corrupted)))) = WAIT + 1
   \<and> \<not> uart_ow_open (snd (snd (main 5 (example_env frame_corrupted))))
   \<and> \<not> dust_gpio_open (snd (snd (main 5 (example_env frame_corrupted))))
   \<and> \<not> dust_aio_open (snd (snd (main 5 (example_env frame_corrupted))))
   \<and> \<not> hsm_aio_open (snd (snd (main 5 (example_env frame_corrupted))))"
proof -
  define A0 where "A0 = app_init
      \<lparr>ds18b20_addr := [[0x28, 0, 0, 0, 0, 0, 0, 0], [0x28, 1, 0, 0, 0, 0, 0, 0]]\<rparr>"
  define E0 where "E0 = (example_env frame_corrupted)
        \<lparr>uart_ow_rom_search_ret := (\<lambda>n. (MRAA_SUCCESS, [0x28, 2 + of_nat n, 0, 0, 0, 0, 0, 0])),
         uart_ow_open := True, dust_gpio_open := True, dust_aio_open := True,
         hsm_aio_open := True\<rparr>"
  have run: "main k (example_env frame_corrupted) = (None, main_loop k A0 E0)" for k
    by (simp add: main_def example_env_startup A0_def E0_def)
  have "state_index (fst (main_loop 4 A0 E0)) = WAIT + 1
      \<and> uart_ow_open (snd (main_loop 4 A0 E0))
      \<and> dust_gpio_open (snd (main_loop 4 A0 E0))
      \<and> dust_aio_open (snd (main_loop 4 A0 E0))
      \<and> hsm_aio_open (snd (main_loop 4 A0 E0))
      \<and> state_index (fst (main_loop 5 A0 E0)) = WAIT + 1
      \<and> \<not> uart_ow_open (snd (main_loop 5 A0 E0))
      \<and> \<not> dust_gpio_open (snd (main_loop 5 A0 E0))
      \<and> \<not> dust_aio_open (snd (main_loop 5 A0 E0))
      \<and> \<not> hsm_aio_open (snd (main_loop 5 A0 E0))"
    by (simp add: A0_def E0_def main_loop_numeral main_loop_Suc app_states_defs
        case_NONE_def case_START_CONV_def ds18b20_update_def mraa_uart_ow_command_def
        case_WAIT_TILL_CONV_FINISHED_def case_READ_TEMP_eq case_default_def
        mraa_uart_ow_stop_def mraa_aio_close_hsm_def mraa_aio_close_dust_def
        mraa_gpio_close_def Let_def app_init_def example_env_def example_crc8_def
        frame_corrupted_def frame_0190_def frame_FC90_def frame_FEFF_def map_upt_8)
  then show ?thesis
    by (simp add: run)
qed

text \<open>
  C7, as amended. A CRC mismatch on a probe's scratchpad is not local to that reading.
  From \<^verbatim>\<open>READ_TEMP\<close> with a frame that fails its CRC, after any number of passes the
  machine is in the \<^verbatim>\<open>default\<close> case (\<^verbatim>\<open>state_index\<close> is \<^verbatim>\<open>WAIT + 1\<close>): no value is
  made up for the reading (\<^verbatim>\<open>temp\<close> keeps its value and no row is inserted), and no
  later reading of this or any other cycle is stored either.
\<close>

theorem crc_mismatch_enters_default_case:
  fixes a :: app and e :: env and n :: nat
  assumes st: "state_index a = READ_TEMP"
    and crc: "uart_ow_crc8 e (map (uart_ow_read_byte_ret e) [0..<8]) \<noteq> uart_ow_read_byte_ret e 8"
  shows "state_index (fst (main_loop (Suc n) a e)) = WAIT + 1
       \<and> sensor_data (snd (main_loop (Suc n) a e)) = sensor_data e
       \<and> temp (fst (main_loop (Suc n) a e)) = temp a"
proof -
  define a' where "a' = fst (case_READ_TEMP a e)"
  define e' where "e' = snd (case_READ_TEMP a e)"
  have step: "main_loop (Suc n) a e = main_loop n a' e'"
    using st by (simp add: main_loop_Suc app_states_defs a'_def e'_def)
  have a': "state_index a' = WAIT + 1" "temp a' = temp a"
    and e': "sensor_data e' = sensor_data e"
    using crc by (simp_all add: a'_def e'_def case_READ_TEMP_eq Let_def)
  have "main_loop n a' e' = (a', e') \<or> main_loop n a' e' = case_default a' e'"
  proof (cases n)
    case 0
    then show ?thesis by simp
  next
    case (Suc m)
    have "state_index a' < NONE \<or> WAIT < state_index a'"
      by (simp add: a'(1))
    then have "main_loop n a' e' = case_default a' e'"
      unfolding Suc by (rule main_loop_default)
    then show ?thesis by simp
  qed
  then show ?thesis
    unfolding step
    by (auto simp add: a' e' case_default_def mraa_uart_ow_stop_def
        mraa_aio_close_hsm_def mraa_aio_close_dust_def mraa_gpio_close_def)
qed

text \<open>The theorem at the corrupted frame, for 1001 passes.\<close>

theorem crc_mismatch_enters_default_case_witness:
  "state_index (app_init\<lparr>state_index := READ_TEMP\<rparr>) = READ_TEMP
   \<and> uart_ow_crc8 (example_env frame_corrupted)
         (map (uart_ow_read_byte_ret (example_env frame_corrupted)) [0..<8]) \<noteq>
       uart_ow_read_byte_ret (example_env frame_corrupted) 8
   \<and> state_index (fst (main_loop (Suc 1000) (app_init\<lparr>state_index := READ_TEMP\<rparr>)
                          (example_env frame_corrupted))) = WAIT + 1
   \<and> sensor_data (snd (main_loop (Suc 1000) (app_init\<lparr>state_index := READ_TEMP\<rparr>)
                          (example_env frame_corrupted))) = []"
  using crc_mismatch_enters_default_case
    [of "app_init\<lparr>state_index := READ_TEMP\<rparr>" "example_env frame_corrupted" 1000]
  by (simp add: app_init_def example_env_def example_crc8_def frame_corrupted_def
      frame_0190_def frame_FC90_def frame_FEFF_def map_upt_8)

text \<open>
  C7 as stated fails: let the first probe's frame be corrupted and every later frame be
  intact, with every other call succeeding. After start-up and 100 passes \<^verbatim>\<open>main\<close> is
  in the \<^verbatim>\<open>default\<close> case and has stored nothing: neither the second probe's reading
  nor the dust or humidity readings of this or a later cycle.
\<close>

theorem crc_mismatch_aborts_cycle_counterexample:
  "fst (main 100
      ((example_env frame_0190)
         \<lparr>uart_ow_read_byte_ret :=
            (\<lambda>n. if n < 9 then frame_corrupted ! n else frame_0190 ! (n mod 9))\<rparr>)) = None
   \<and> state_index (fst (snd (main 100
      ((example_env frame_0190)
         \<lparr>uart_ow_read_byte_ret :=
            (\<lambda>n. if n < 9 then frame_corrupted ! n else frame_0190 ! (n mod 9))\<rparr>)))) = WAIT + 1
   \<and> sensor_data (snd (snd (main 100
      ((example_env frame_0190)
         \<lparr>uart_ow_read_byte_ret :=
            (\<lambda>n. if n < 9 then frame_corrupted ! n else frame_0190 ! (n mod 9))\<rparr>)))) = []"
proof -
  define E where "E = (example_env frame_0190)
         \<lparr>uart_ow_read_byte_ret :=
            (\<lambda>n. if n < 9 then frame_corrupted ! n else frame_0190 ! (n mod 9))\<rparr>"
  define A0 where "A0 = fst (snd (main_startup app_init E))"
  define E0 where "E0 = snd (snd (main_startup app_init E))"
  have start: "main_startup app_init E = (None, A0, E0)"
    "state_index A0 = NONE" "sen_count A0 = 0" "sensor_data E0 = []"
    "uart_ow_read_byte_ret E0 = uart_ow_read_byte_ret E" "uart_ow_crc8 E0 = example_crc8"
    unfolding A0_def E0_def
    by (simp_all add: E_def main_startup_def app_init_def example_env_def search_loop.simps
        Let_def mraa_uart_ow_rom_search_def mraa_uart_ow_stop_def NUM_OF_SENSORS_def
        DS18B20_ADDR_LEN_def dust_aio_in_def hsm_aio_in_def)
  have run: "main 100 E = (None, main_loop 100 A0 E0)"
    by (simp add: main_def start(1))
  have "state_index (fst (main_loop 100 A0 E0)) = WAIT + 1
      \<and> sensor_data (snd (main_loop 100 A0 E0)) = []"
    by (simp add: start E_def main_loop_numeral main_loop_Suc app_states_defs
        case_NONE_def case_START_CONV_def ds18b20_update_def mraa_uart_ow_command_def
        case_WAIT_TILL_CONV_FINISHED_def case_READ_TEMP_eq case_default_def
        mraa_uart_ow_stop_def mraa_aio_close_hsm_def mraa_aio_close_dust_def
        mraa_gpio_close_def Let_def example_env_def example_crc8_def
        frame_corrupted_def frame_0190_def frame_FC90_def frame_FEFF_def map_upt_8)
  then show ?thesis
    unfolding E_def [symmetric] by (simp add: run)
qed

text \<open>
  The search loop when one sensor has been found already (\<^verbatim>\<open>sen_count\<close> is 1): its body
  runs once, since \<^verbatim>\<open>NUM_OF_SENSORS\<close> is 2.
\<close>

lemma search_loop_last:
  assumes "sen_count a = 1"
  shows "search_loop a e =
           (let r = fst (uart_ow_rom_search_ret e 0);
                a1 = a\<lparr>mraa_ret_val := r,
                       ds18b20_addr := (ds18b20_addr a)[1 := snd (uart_ow_rom_search_ret e 0)]\<rparr>;
                e1 = e\<lparr>uart_ow_rom_search_ret := (\<lambda>n. uart_ow_rom_search_ret e (Suc n))\<rparr>
            in if r = MRAA_ERROR_UART_OW_NO_DEVICES then (False, a1, e1\<lparr>uart_ow_open := False\<rparr>)
               else (True, a1\<lparr>sen_count := 2\<rparr>, e1))"
  using assms
  by (subst search_loop.simps)
    (auto simp add: Let_def mraa_uart_ow_rom_search_def mraa_uart_ow_stop_def
      NUM_OF_SENSORS_def split_beta)

text \<open>
  The start-up failures that are fatal: a reset that does not succeed, a first or second
  search that detects no device, and a data error in the second (the last) search. In
  each case \<^verbatim>\<open>main\<close> returns 1 with the UART stopped.
\<close>

lemma main_startup_fatal:
  assumes init: "uart_ow_init_ret e"
  shows "(uart_ow_reset_ret e \<noteq> MRAA_SUCCESS
            \<or> fst (uart_ow_rom_search_ret e 0) = MRAA_ERROR_UART_OW_NO_DEVICES
            \<or> fst (uart_ow_rom_search_ret e 1) = MRAA_ERROR_UART_OW_NO_DEVICES
            \<or> fst (uart_ow_rom_search_ret e 1) = MRAA_ERROR_UART_OW_DATA_ERROR
          \<longrightarrow> fst (main_startup app_init e) = Some 1
              \<and> \<not> uart_ow_open (snd (snd (main_startup app_init e))))"
  using init
  by (auto simp add: main_startup_def app_init_def search_loop_last Let_def
      mraa_uart_ow_rom_search_def mraa_uart_ow_stop_def NUM_OF_SENSORS_def split_beta)

text \<open>
  C10 does not hold of the program. \<^verbatim>\<open>mraa_ret_val\<close> is compared with
  \<^verbatim>\<open>MRAA_ERROR_UART_OW_DATA_ERROR\<close> only after the search loop, when it holds the result
  of the last search. In the environment below the first search returns the data error
  and the second search succeeds: start-up does not return, the UART stays open, and after
  one pass of the loop the machine is in \<^verbatim>\<open>START_CONV\<close>.
\<close>

theorem startup_data_error_on_first_search_enters_loop:
  "uart_ow_rom_search_ret
     ((example_env frame_0190)
        \<lparr>uart_ow_rom_search_ret :=
           (\<lambda>n. if n = 0 then (MRAA_ERROR_UART_OW_DATA_ERROR, [0, 0, 0, 0, 0, 0, 0, 0])
                else (MRAA_SUCCESS, [0x28, 1, 0, 0, 0, 0, 0, 0]))\<rparr>) 0
     = (MRAA_ERROR_UART_OW_DATA_ERROR, [0, 0, 0, 0, 0, 0, 0, 0])
   \<and> fst (main 1
       ((example_env frame_0190)
          \<lparr>uart_ow_rom_search_ret :=
             (\<lambda>n. if n = 0 then (MRAA_ERROR_UART_OW_DATA_ERROR, [0, 0, 0, 0, 0, 0, 0, 0])
                  else (MRAA_SUCCESS, [0x28, 1, 0, 0, 0, 0, 0, 0]))\<rparr>)) = None
   \<and> state_index (fst (snd (main 1
       ((example_env frame_0190)
          \<lparr>uart_ow_rom_search_ret :=
             (\<lambda>n. if n = 0 then (MRAA_ERROR_UART_OW_DATA_ERROR, [0, 0, 0, 0, 0, 0, 0, 0])
                  else (MRAA_SUCCESS, [0x28, 1, 0, 0, 0, 0, 0, 0]))\<rparr>)))) = START_CONV
   \<and> uart_ow_open (snd (snd (main 1
       ((example_env frame_0190)
          \<lparr>uart_ow_rom_search_ret :=
             (\<lambda>n. if n = 0 then (MRAA_ERROR_UART_OW_DATA_ERROR, [0, 0, 0, 0, 0, 0, 0, 0])
                  else (MRAA_SUCCESS, [0x28, 1, 0, 0, 0, 0, 0, 0]))\<rparr>))))"
  by (simp add: main_def main_startup_def app_init_def example_env_def search_loop_last
      Let_def mraa_uart_ow_rom_search_def mraa_uart_ow_stop_def NUM_OF_SENSORS_def
      DS18B20_ADDR_LEN_def dust_aio_in_def hsm_aio_in_def main_loop_Suc case_NONE_def
      app_states_defs split_beta)

subsection \<open>The sensor ids and the readings stored under them\<close>

text \<open>
  The value the sampling loop accumulates depends on the environment only through the
  answers of the pin writes and of the dust sensor's analog reads.
\<close>

lemma gp2y_read_dust_output_voltage_float_cong:
  assumes g: "gpio_write_ret e = gpio_write_ret e'"
    and d: "dust_aio_read_ret e = dust_aio_read_ret e'"
  shows "fst (gp2y_read_dust_output_voltage_float e) =
           fst (gp2y_read_dust_output_voltage_float e')
       \<and> gpio_write_ret (snd (gp2y_read_dust_output_voltage_float e)) =
           gpio_write_ret (snd (gp2y_read_dust_output_voltage_float e'))
       \<and> dust_aio_read_ret (snd (gp2y_read_dust_output_voltage_float e)) =
           dust_aio_read_ret (snd (gp2y_read_dust_output_voltage_float e'))"
  by (simp add: gp2y_read_dust_output_voltage_float_eq g d)

lemma dust_sample_loop_Suc:
  "dust_sample_loop (Suc n) a e =
     dust_sample_loop n
       (a\<lparr>dust_concentration := fst (gp2y_read_dust_output_voltage_float e),
          acc_dust_concentration :=
            acc_dust_concentration a + fst (gp2y_read_dust_output_voltage_float e)\<rparr>)
       (snd (gp2y_read_dust_output_voltage_float e))"
proof -
  have "0 \<le> fst (gp2y_read_dust_output_voltage_float e)"
    using gp2y_read_dust_output_voltage_float_frame [of e] by auto
  then show ?thesis
    by (simp add: split_beta Let_def)
qed

lemma dust_sample_loop_acc_cong:
  assumes "gpio_write_ret e = gpio_write_ret e'"
    and "dust_aio_read_ret e = dust_aio_read_ret e'"
    and "acc_dust_concentration a = acc_dust_concentration a'"
  shows "acc_dust_concentration (fst (dust_sample_loop n a e)) =
         acc_dust_concentration (fst (dust_sample_loop n a' e'))"
  using assms
proof (induction n arbitrary: a e a' e')
  case 0
  then show ?case by simp
next
  case (Suc n)
  note c = gp2y_read_dust_output_voltage_float_cong [OF Suc.prems(1) Suc.prems(2)]
  show ?case
    unfolding dust_sample_loop_Suc
    by (rule Suc.IH) (simp_all add: c Suc.prems(3))
qed

text \<open>What a \<^verbatim>\<open>READ_DUST_CONCENTRATION\<close> case with a successful store inserts.\<close>

lemma case_READ_DUST_CONCENTRATION_stored:
  assumes "db_ret e 0 = DB_OK"
  shows "sensor_data (snd (case_READ_DUST_CONCENTRATION a e)) =
           sensor_data e @
           [(3, dust_density_of_voltage
                  (acc_dust_concentration
                     (fst (dust_sample_loop 16
                        (a\<lparr>dust_data_coll_err := 0, acc_dust_concentration := 0\<rparr>) e))
                   / 16))]
       \<and> ow_commands (snd (case_READ_DUST_CONCENTRATION a e)) = ow_commands e
       \<and> ds18b20_addr (fst (case_READ_DUST_CONCENTRATION a e)) = ds18b20_addr a"
proof -
  obtain dc g d where c: "case_READ_DUST_CONCENTRATION a e =
     (let acc = acc_dust_concentration (fst (dust_sample_loop 16
                  (a\<lparr>dust_data_coll_err := 0, acc_dust_concentration := 0\<rparr>) e));
          density = dust_density_of_voltage (acc / 16);
          a' = a\<lparr>dust_concentration := dc, acc_dust_concentration := density,
                 dust_data_coll_err := 0\<rparr>;
          e' = e\<lparr>gpio_write_ret := g, dust_aio_read_ret := d,
                 db_ret := (\<lambda>n. db_ret e (Suc n))\<rparr>
      in if db_ret e 0 = DB_OK
         then (a'\<lparr>state_index := READ_HUMIDITY\<rparr>,
               e'\<lparr>sensor_data := sensor_data e @ [(3, density)]\<rparr>)
         else (a'\<lparr>state_index := WAIT + 1\<rparr>, e'))"
    using case_READ_DUST_CONCENTRATION_eq [of a e] by blast
  show ?thesis
    using assms by (simp add: c Let_def)
qed

text \<open>
  The six passes that read the two probes: the commands are addressed to row 0 and then
  to row 1 of \<^verbatim>\<open>ds18b20_addr\<close>, and the temperatures decoded from the first and the
  second frame are stored under the ids 1 and 2.
\<close>

lemma temperature_phase:
  assumes st: "state_index a = START_CONV" and sc: "sen_count a = 0"
    and crc0: "uart_ow_crc8 e (map (uart_ow_read_byte_ret e) [0..<8]) =
               uart_ow_read_byte_ret e 8"
    and crc1: "uart_ow_crc8 e (map (\<lambda>j. uart_ow_read_byte_ret e (j + 9)) [0..<8]) =
               uart_ow_read_byte_ret e 17"
    and db: "db_ret e 0 = DB_OK" "db_ret e (Suc 0) = DB_OK"
  shows "main_loop 6 a e =
    (a\<lparr>state_index := READ_DUST_CONCENTRATION,
       temp := real_of_int (sint (push_bit 8 (ucast (uart_ow_read_byte_ret e 10) :: int16_t)
                                    OR ucast (uart_ow_read_byte_ret e 9))) * 0.0625,
       sen_count := 0\<rparr>,
     e\<lparr>uart_ow_read_byte_ret := (\<lambda>k. uart_ow_read_byte_ret e (18 + k)),
       db_ret := (\<lambda>n. db_ret e (Suc (Suc n))),
       ow_commands := ow_commands e @
         [(CMD_START_TEMP_CONV, ds18b20_addr a ! 0), (CMD_READ_SCRATCHPAD, ds18b20_addr a ! 0),
          (CMD_START_TEMP_CONV, ds18b20_addr a ! 1), (CMD_READ_SCRATCHPAD, ds18b20_addr a ! 1)],
       sensor_data := sensor_data e @
         [(1, real_of_int (sint (push_bit 8 (ucast (uart_ow_read_byte_ret e 1) :: int16_t)
                                   OR ucast (uart_ow_read_byte_ret e 0))) * 0.0625),
          (2, real_of_int (sint (push_bit 8 (ucast (uart_ow_read_byte_ret e 10) :: int16_t)
                                   OR ucast (uart_ow_read_byte_ret e 9))) * 0.0625)]\<rparr>)"
  using st sc crc0 crc1 db
  by (simp add: main_loop_numeral main_loop_Suc app_states_defs case_START_CONV_def
      ds18b20_update_def mraa_uart_ow_command_def case_WAIT_TILL_CONV_FINISHED_def
      case_READ_TEMP_eq Let_def)

text \<open>One acquisition cycle: the commands sent and the four rows inserted.\<close>

lemma acquisition_cycle_rows:
  assumes st: "state_index a = START_CONV" and sc: "sen_count a = 0"
    and crc0: "uart_ow_crc8 e (map (uart_ow_read_byte_ret e) [0..<8]) =
               uart_ow_read_byte_ret e 8"
    and crc1: "uart_ow_crc8 e (map (\<lambda>j. uart_ow_read_byte_ret e (j + 9)) [0..<8]) =
               uart_ow_read_byte_ret e 17"
    and db: "db_ret e 0 = DB_OK" "db_ret e (Suc 0) = DB_OK" "db_ret e (Suc (Suc 0)) = DB_OK"
      "db_ret e (Suc (Suc (Suc 0))) = DB_OK"
  shows "ds18b20_addr (fst (main_loop 9 a e)) = ds18b20_addr a
       \<and> hsm_aio_read_ret (snd (main_loop 9 a e)) = (\<lambda>k. hsm_aio_read_ret e (Suc k))
       \<and> ow_commands (snd (main_loop 9 a e)) = ow_commands e @
           [(CMD_START_TEMP_CONV, ds18b20_addr a ! 0), (CMD_READ_SCRATCHPAD, ds18b20_addr a ! 0),
            (CMD_START_TEMP_CONV, ds18b20_addr a ! 1), (CMD_READ_SCRATCHPAD, ds18b20_addr a ! 1)]
       \<and> sensor_data (snd (main_loop 9 a e)) = sensor_data e @
           [(1, real_of_int (sint (push_bit 8 (ucast (uart_ow_read_byte_ret e 1) :: int16_t)
                                     OR ucast (uart_ow_read_byte_ret e 0))) * 0.0625),
            (2, real_of_int (sint (push_bit 8 (ucast (uart_ow_read_byte_ret e 10) :: int16_t)
                                     OR ucast (uart_ow_read_byte_ret e 9))) * 0.0625),
            (3, dust_density_of_voltage
                  (acc_dust_concentration
                     (fst (dust_sample_loop 16
                        (a\<lparr>dust_data_coll_err := 0, acc_dust_concentration := 0\<rparr>) e))
                   / 16)),
            (4, hsm_humidity_of_voltage (real (unat (hsm_aio_read_ret e 0)) / 1023 * 5))]"
proof -
  define A6 where "A6 = fst (main_loop 6 a e)"
  define E6 where "E6 = snd (main_loop 6 a e)"
  note six = temperature_phase [OF st sc crc0 crc1 db(1) db(2)]
  have A6: "state_index A6 = READ_DUST_CONCENTRATION" "ds18b20_addr A6 = ds18b20_addr a"
    by (simp_all add: A6_def six)
  have E6: "db_ret E6 = (\<lambda>n. db_ret e (Suc (Suc n)))"
    "hsm_aio_read_ret E6 = hsm_aio_read_ret e"
    "gpio_write_ret E6 = gpio_write_ret e" "dust_aio_read_ret E6 = dust_aio_read_ret e"
    "ow_commands E6 = ow_commands e @
       [(CMD_START_TEMP_CONV, ds18b20_addr a ! 0), (CMD_READ_SCRATCHPAD, ds18b20_addr a ! 0),
        (CMD_START_TEMP_CONV, ds18b20_addr a ! 1), (CMD_READ_SCRATCHPAD, ds18b20_addr a ! 1)]"
    "sensor_data E6 = sensor_data e @
       [(1, real_of_int (sint (push_bit 8 (ucast (uart_ow_read_byte_ret e 1) :: int16_t)
                                 OR ucast (uart_ow_read_byte_ret e 0))) * 0.0625),
        (2, real_of_int (sint (push_bit 8 (ucast (uart_ow_read_byte_ret e 10) :: int16_t)
                                 OR ucast (uart_ow_read_byte_ret e 9))) * 0.0625)]"
    by (simp_all add: E6_def six)
  have batch: "acc_dust_concentration (fst (dust_sample_loop 16
                  (A6\<lparr>dust_data_coll_err := 0, acc_dust_concentration := 0\<rparr>) E6)) =
               acc_dust_concentration (fst (dust_sample_loop 16
                  (a\<lparr>dust_data_coll_err := 0, acc_dust_concentration := 0\<rparr>) e))"
    by (rule dust_sample_loop_acc_cong) (simp_all add: E6)
  have db2: "db_ret E6 0 = DB_OK" and db3: "db_ret E6 (Suc 0) = DB_OK"
    using db(3) db(4) by (simp_all add: E6(1))
  note dust = case_READ_DUST_CONCENTRATION_stored [OF db2, of A6]
  have nine: "main_loop 9 a e = main_loop 3 A6 E6"
    using main_loop_add [of 6 3 a e] by (simp add: A6_def E6_def)
  show ?thesis
    unfolding nine
    using db2 db3
    by (simp add: main_loop_numeral main_loop_Suc app_states_defs A6 E6(2-) batch dust
        case_READ_DUST_CONCENTRATION_frame case_READ_HUMIDITY_eq case_WAIT_def Let_def)
qed

lemma temp_adc_val_word:
  fixes lsb msb :: uint8_t
  shows "(push_bit 8 (ucast msb :: int16_t) OR ucast lsb) = word_of_int (uint lsb + 256 * uint msb)"
  unfolding uint_temp_adc_val [symmetric] by simp

text \<open>The humidity of a count of the 10-bit converter lies between -7.542 and 153.438.\<close>

lemma humidity_in_range:
  fixes w :: uint16_t
  assumes "unat w \<le> 1023"
  shows "- 7.542 \<le> hsm_humidity_of_voltage (real (unat w) / 1023 * 5)
       \<and> hsm_humidity_of_voltage (real (unat w) / 1023 * 5) \<le> 153.438"
proof -
  define v where "v = real (unat w) / 1023 * 5"
  have "real (unat w) \<le> 1023"
    using assms by (simp del: of_nat_unat)
  then have v: "0 \<le> v" "v \<le> 5"
    unfolding v_def by (simp_all del: of_nat_unat)
  have "v * v \<le> 5 * 5"
    using v by (intro mult_mono) simp_all
  moreover have "0 \<le> v * v"
    using v by simp
  ultimately show ?thesis
    using v unfolding v_def [symmetric] hsm_humidity_of_voltage_def by simp
qed

text \<open>
  A start-up that reaches the loop has put the ROM code of the first search in row 0 and
  that of the second search in row 1.
\<close>

lemma main_startup_enumeration:
  assumes "fst (main_startup app_init e) = None"
  shows "state_index (fst (snd (main_startup app_init e))) = NONE
       \<and> sen_count (fst (snd (main_startup app_init e))) = 0
       \<and> ds18b20_addr (fst (snd (main_startup app_init e))) =
           [snd (uart_ow_rom_search_ret e 0), snd (uart_ow_rom_search_ret e 1)]"
  using assms
  by (simp add: main_startup_def app_init_def search_loop_last Let_def split_beta
      mraa_uart_ow_rom_search_def mraa_uart_ow_stop_def NUM_OF_SENSORS_def
      DS18B20_ADDR_LEN_def numeral_2_eq_2 split: if_splits)

text \<open>The cycle with index \<open>c\<close> of \<open>k\<close> successful cycles.\<close>

lemma acquisition_cycles_rows:
  assumes st: "state_index a = START_CONV" and sc: "sen_count a = 0"
    and crc: "\<forall>i<2 * k. uart_ow_crc8 e (map (\<lambda>j. uart_ow_read_byte_ret e (9 * i + j)) [0..<8]) =
                        uart_ow_read_byte_ret e (9 * i + 8)"
    and db: "\<forall>i<4 * k. db_ret e i = DB_OK"
    and hum: "\<forall>i<k. unat (hsm_aio_read_ret e i) \<le> 1023"
    and c: "c < k"
  shows "state_index (fst (main_loop (9 * c) a e)) = START_CONV
       \<and> sen_count (fst (main_loop (9 * c) a e)) = 0
       \<and> ds18b20_addr (fst (main_loop (9 * c) a e)) = ds18b20_addr a
       \<and> unat (hsm_aio_read_ret (snd (main_loop (9 * c) a e)) 0) \<le> 1023
       \<and> ow_commands (snd (main_loop (9 * c + 9) a e)) =
           ow_commands (snd (main_loop (9 * c) a e)) @
           [(CMD_START_TEMP_CONV, ds18b20_addr a ! 0), (CMD_READ_SCRATCHPAD, ds18b20_addr a ! 0),
            (CMD_START_TEMP_CONV, ds18b20_addr a ! 1), (CMD_READ_SCRATCHPAD, ds18b20_addr a ! 1)]
       \<and> sensor_data (snd (main_loop (9 * c + 9) a e)) =
           sensor_data (snd (main_loop (9 * c) a e)) @
           [(1, real_of_int (sint (push_bit 8
                  (ucast (uart_ow_read_byte_ret (snd (main_loop (9 * c) a e)) 1) :: int16_t)
                  OR ucast (uart_ow_read_byte_ret (snd (main_loop (9 * c) a e)) 0))) * 0.0625),
            (2, real_of_int (sint (push_bit 8
                  (ucast (uart_ow_read_byte_ret (snd (main_loop (9 * c) a e)) 10) :: int16_t)
                  OR ucast (uart_ow_read_byte_ret (snd (main_loop (9 * c) a e)) 9))) * 0.0625),
            (3, dust_density_of_voltage
                  (acc_dust_concentration
                     (fst (dust_sample_loop 16
                        ((fst (main_loop (9 * c) a e))
                           \<lparr>dust_data_coll_err := 0, acc_dust_concentration := 0\<rparr>)
                        (snd (main_loop (9 * c) a e))))
                   / 16)),
            (4, hsm_humidity_of_voltage
                  (real (unat (hsm_aio_read_ret (snd (main_loop (9 * c) a e)) 0)) / 1023 * 5))]"
  using st sc crc db hum c
proof (induction c arbitrary: a e k)
  case 0
  have crc0: "uart_ow_crc8 e (map (uart_ow_read_byte_ret e) [0..<8]) = uart_ow_read_byte_ret e 8"
    using "0.prems"(3) [rule_format, of 0] "0.prems"(6) by simp
  have crc1: "uart_ow_crc8 e (map (\<lambda>j. uart_ow_read_byte_ret e (j + 9)) [0..<8]) =
              uart_ow_read_byte_ret e 17"
    using "0.prems"(3) [rule_format, of 1] "0.prems"(6) by (simp add: add.commute)
  have db0: "db_ret e 0 = DB_OK" and db1: "db_ret e (Suc 0) = DB_OK"
    and db2: "db_ret e (Suc (Suc 0)) = DB_OK" and db3: "db_ret e (Suc (Suc (Suc 0))) = DB_OK"
    using "0.prems"(4) "0.prems"(6) by simp_all
  have h: "unat (hsm_aio_read_ret e 0) \<le> 1023"
    using "0.prems"(5) "0.prems"(6) by simp
  note rows = acquisition_cycle_rows [OF "0.prems"(1) "0.prems"(2) crc0 crc1 db0 db1 db2 db3]
  show ?case
    using "0.prems"(1) "0.prems"(2) h rows by simp
next
  case (Suc c)
  obtain k' where k: "k = Suc k'"
    using Suc.prems(6) by (cases k) simp_all
  have crc0: "uart_ow_crc8 e (map (uart_ow_read_byte_ret e) [0..<8]) = uart_ow_read_byte_ret e 8"
    using Suc.prems(3) [rule_format, of 0] Suc.prems(6) by simp
  have crc1: "uart_ow_crc8 e (map (\<lambda>j. uart_ow_read_byte_ret e (j + 9)) [0..<8]) =
              uart_ow_read_byte_ret e 17"
    using Suc.prems(3) [rule_format, of 1] Suc.prems(6) by (simp add: add.commute)
  have db0: "db_ret e 0 = DB_OK" and db1: "db_ret e (Suc 0) = DB_OK"
    and db2: "db_ret e (Suc (Suc 0)) = DB_OK" and db3: "db_ret e (Suc (Suc (Suc 0))) = DB_OK"
    using Suc.prems(4) Suc.prems(6) by simp_all
  define a' where "a' = fst (main_loop 9 a e)"
  define e' where "e' = snd (main_loop 9 a e)"
  have cyc: "state_index a' = START_CONV" "sen_count a' = 0"
    "uart_ow_read_byte_ret e' = (\<lambda>k. uart_ow_read_byte_ret e (18 + k))"
    "db_ret e' = (\<lambda>k. db_ret e (Suc (Suc (Suc (Suc k)))))"
    "uart_ow_crc8 e' = uart_ow_crc8 e"
    unfolding a'_def e'_def
    using acquisition_cycle [OF Suc.prems(1) Suc.prems(2) crc0 crc1 db0 db1 db2 db3]
    by simp_all
  have rows: "ds18b20_addr a' = ds18b20_addr a"
    "hsm_aio_read_ret e' = (\<lambda>k. hsm_aio_read_ret e (Suc k))"
    unfolding a'_def e'_def
    using acquisition_cycle_rows [OF Suc.prems(1) Suc.prems(2) crc0 crc1 db0 db1 db2 db3]
    by simp_all
  have crc': "\<forall>i<2 * k'. uart_ow_crc8 e' (map (\<lambda>j. uart_ow_read_byte_ret e' (9 * i + j)) [0..<8]) =
                        uart_ow_read_byte_ret e' (9 * i + 8)"
  proof (intro allI impI)
    fix i
    assume "i < 2 * k'"
    then have "i + 2 < 2 * k"
      by (simp add: k)
    then have "uart_ow_crc8 e (map (\<lambda>j. uart_ow_read_byte_ret e (9 * (i + 2) + j)) [0..<8]) =
               uart_ow_read_byte_ret e (9 * (i + 2) + 8)"
      using Suc.prems(3) by blast
    then show "uart_ow_crc8 e' (map (\<lambda>j. uart_ow_read_byte_ret e' (9 * i + j)) [0..<8]) =
               uart_ow_read_byte_ret e' (9 * i + 8)"
      by (simp add: cyc(3) cyc(5) algebra_simps)
  qed
  have db': "\<forall>i<4 * k'. db_ret e' i = DB_OK"
  proof (intro allI impI)
    fix i
    assume "i < 4 * k'"
    then have "Suc (Suc (Suc (Suc i))) < 4 * k"
      by (simp add: k)
    then show "db_ret e' i = DB_OK"
      using Suc.prems(4) by (simp add: cyc(4))
  qed
  have hum': "\<forall>i<k'. unat (hsm_aio_read_ret e' i) \<le> 1023"
    using Suc.prems(5) by (simp add: rows(2) k)
  have c': "c < k'"
    using Suc.prems(6) by (simp add: k)
  have shift: "main_loop (9 * Suc c) a e = main_loop (9 * c) a' e'"
    "main_loop (9 * Suc c + 9) a e = main_loop (9 * c + 9) a' e'"
    using main_loop_add [of 9 "9 * c" a e] main_loop_add [of 9 "9 * c + 9" a e]
    by (simp_all add: a'_def e'_def)
  show ?case
    unfolding shift
    using Suc.IH [OF cyc(1) cyc(2) crc' db' hum' c'] by (simp add: rows(1))
qed

lemma all_less_4: "(\<forall>i<4::nat. P i) = (P 0 \<and> P 1 \<and> P 2 \<and> P 3)"
proof -
  have "i < 4 \<longleftrightarrow> i = 0 \<or> i = 1 \<or> i = 2 \<or> i = 3" for i :: nat
    by arith
  then show ?thesis by auto
qed

text \<open>
  C5. Start in \<^verbatim>\<open>START_CONV\<close> with \<^verbatim>\<open>sen_count\<close> 0 and run \<open>k\<close> acquisition
  cycles (nine passes each) in which every frame passes its CRC, every store succeeds
  and the humidity sensor's pin reads counts of the 10-bit converter (at most 1023).
  Then the sensor ids of the rows inserted are 1, 2, 3, 4 for each cycle, in this order
  and with nothing in between, and the machine is again in \<^verbatim>\<open>START_CONV\<close> with
  \<^verbatim>\<open>sen_count\<close> 0. In each of the cycles, \<open>e'\<close> being the environment at its start:
  \<^item> the conversion and scratchpad commands go to row 0 of \<^verbatim>\<open>ds18b20_addr\<close> first and
    then to row 1, and the table of addresses is the one the run started with;
  \<^item> the row of id 1 holds the temperature of the first frame the bus delivers (bytes 0
    and 1 of \<open>e'\<close>, read as a signed 16-bit field, times 0.0625), and the row of id 2
    that of the second frame (bytes 9 and 10);
  \<^item> the row of id 3 holds the density of the mean of the sixteen dust samples taken
    from \<open>e'\<close>;
  \<^item> the row of id 4 holds the humidity of the next count of the humidity sensor's pin,
    \<open>1.253 v\<^sup>2 + 25.931 v - 7.542\<close> at \<open>v = raw / 1023.0 * 5.0\<close>, a value between
    -7.542 and 153.438.
  The rows of \<^verbatim>\<open>ds18b20_addr\<close> are in enumeration order: a start-up that reaches the loop
  (in any environment \<open>e0\<close>) leaves, after the first pass, the machine in
  \<^verbatim>\<open>START_CONV\<close> with \<^verbatim>\<open>sen_count\<close> 0, the ROM code of the first search in row 0 and
  that of the second search in row 1.
\<close>

theorem acquisition_cycles_sensor_ids:
  fixes a :: app and e :: env and k :: nat and e0 :: env
  assumes st: "state_index a = START_CONV" and sc: "sen_count a = 0"
    and crc: "\<forall>i<2 * k. uart_ow_crc8 e (map (\<lambda>j. uart_ow_read_byte_ret e (9 * i + j)) [0..<8]) =
                        uart_ow_read_byte_ret e (9 * i + 8)"
    and db: "\<forall>i<4 * k. db_ret e i = DB_OK"
    and hum: "\<forall>i<k. unat (hsm_aio_read_ret e i) \<le> 1023"
  shows "map fst (sensor_data (snd (main_loop (9 * k) a e))) =
           map fst (sensor_data e) @ concat (replicate k [1, 2, 3, 4])
       \<and> state_index (fst (main_loop (9 * k) a e)) = START_CONV
       \<and> sen_count (fst (main_loop (9 * k) a e)) = 0
       \<and> (\<forall>c<k.
            let a' = fst (main_loop (9 * c) a e);
                e' = snd (main_loop (9 * c) a e);
                e'' = snd (main_loop (9 * c + 9) a e);
                raw0 = uint (uart_ow_read_byte_ret e' 0) + 256 * uint (uart_ow_read_byte_ret e' 1);
                raw1 = uint (uart_ow_read_byte_ret e' 9) + 256 * uint (uart_ow_read_byte_ret e' 10);
                mean = acc_dust_concentration
                         (fst (dust_sample_loop 16
                            (a'\<lparr>dust_data_coll_err := 0, acc_dust_concentration := 0.0\<rparr>) e'))
                       / 16;
                v = real (unat (hsm_aio_read_ret e' 0)) / 1023.0 * 5.0;
                h = 1.253 * v * v + 25.931 * v - 7.542
            in state_index a' = START_CONV \<and> sen_count a' = 0
             \<and> ds18b20_addr a' = ds18b20_addr a
             \<and> ow_commands e'' = ow_commands e' @
                 [(CMD_START_TEMP_CONV, ds18b20_addr a ! 0),
                  (CMD_READ_SCRATCHPAD, ds18b20_addr a ! 0),
                  (CMD_START_TEMP_CONV, ds18b20_addr a ! 1),
                  (CMD_READ_SCRATCHPAD, ds18b20_addr a ! 1)]
             \<and> sensor_data e'' = sensor_data e' @
                 [(1, real_of_int (sint (word_of_int raw0 :: int16_t)) * 0.0625),
                  (2, real_of_int (sint (word_of_int raw1 :: int16_t)) * 0.0625),
                  (3, dust_density_of_voltage mean),
                  (4, h)]
             \<and> - 7.542 \<le> h \<and> h \<le> 153.438)
       \<and> (fst (main_startup app_init e0) = None \<longrightarrow>
            (let a0 = fst (main_loop 1 (fst (snd (main_startup app_init e0)))
                                       (snd (snd (main_startup app_init e0))))
             in state_index a0 = START_CONV \<and> sen_count a0 = 0
              \<and> ds18b20_addr a0 =
                  [snd (uart_ow_rom_search_ret e0 0), snd (uart_ow_rom_search_ret e0 1)]))"
proof -
  have ids: "map fst (sensor_data (snd (main_loop (9 * k) a e))) =
               map fst (sensor_data e) @ concat (replicate k [1, 2, 3, 4])
           \<and> state_index (fst (main_loop (9 * k) a e)) = START_CONV
           \<and> sen_count (fst (main_loop (9 * k) a e)) = 0"
    using acquisition_cycles_ids [OF st sc crc db] .
  have rows: "\<forall>c<k.
            let a' = fst (main_loop (9 * c) a e);
                e' = snd (main_loop (9 * c) a e);
                e'' = snd (main_loop (9 * c + 9) a e);
                raw0 = uint (uart_ow_read_byte_ret e' 0) + 256 * uint (uart_ow_read_byte_ret e' 1);
                raw1 = uint (uart_ow_read_byte_ret e' 9) + 256 * uint (uart_ow_read_byte_ret e' 10);
                mean = acc_dust_concentration
                         (fst (dust_sample_loop 16
                            (a'\<lparr>dust_data_coll_err := 0, acc_dust_concentration := 0.0\<rparr>) e'))
                       / 16;
                v = real (unat (hsm_aio_read_ret e' 0)) / 1023.0 * 5.0;
                h = 1.253 * v * v + 25.931 * v - 7.542
            in state_index a' = START_CONV \<and> sen_count a' = 0
             \<and> ds18b20_addr a' = ds18b20_addr a
             \<and> ow_commands e'' = ow_commands e' @
                 [(CMD_START_TEMP_CONV, ds18b20_addr a ! 0),
                  (CMD_READ_SCRATCHPAD, ds18b20_addr a ! 0),
                  (CMD_START_TEMP_CONV, ds18b20_addr a ! 1),
                  (CMD_READ_SCRATCHPAD, ds18b20_addr a ! 1)]
             \<and> sensor_data e'' = sensor_data e' @
                 [(1, real_of_int (sint (word_of_int raw0 :: int16_t)) * 0.0625),
                  (2, real_of_int (sint (word_of_int raw1 :: int16_t)) * 0.0625),
                  (3, dust_density_of_voltage mean),
                  (4, h)]
             \<and> - 7.542 \<le> h \<and> h \<le> 153.438"
  proof (intro allI impI)
    fix c
    assume c: "c < k"
    note r = acquisition_cycles_rows [OF st sc crc db hum c]
    have "unat (hsm_aio_read_ret (snd (main_loop (9 * c) a e)) 0) \<le> 1023"
      using r by simp
    note b = humidity_in_range [OF this]
    show "let a' = fst (main_loop (9 * c) a e);
                e' = snd (main_loop (9 * c) a e);
                e'' = snd (main_loop (9 * c + 9) a e);
                raw0 = uint (uart_ow_read_byte_ret e' 0) + 256 * uint (uart_ow_read_byte_ret e' 1);
                raw1 = uint (uart_ow_read_byte_ret e' 9) + 256 * uint (uart_ow_read_byte_ret e' 10);
                mean = acc_dust_concentration
                         (fst (dust_sample_loop 16
                            (a'\<lparr>dust_data_coll_err := 0, acc_dust_concentration := 0.0\<rparr>) e'))
                       / 16;
                v = real (unat (hsm_aio_read_ret e' 0)) / 1023.0 * 5.0;
                h = 1.253 * v * v + 25.931 * v - 7.542
            in state_index a' = START_CONV \<and> sen_count a' = 0
             \<and> ds18b20_addr a' = ds18b20_addr a
             \<and> ow_commands e'' = ow_commands e' @
                 [(CMD_START_TEMP_CONV, ds18b20_addr a ! 0),
                  (CMD_READ_SCRATCHPAD, ds18b20_addr a ! 0),
                  (CMD_START_TEMP_CONV, ds18b20_addr a ! 1),
                  (CMD_READ_SCRATCHPAD, ds18b20_addr a ! 1)]
             \<and> sensor_data e'' = sensor_data e' @
                 [(1, real_of_int (sint (word_of_int raw0 :: int16_t)) * 0.0625),
                  (2, real_of_int (sint (word_of_int raw1 :: int16_t)) * 0.0625),
                  (3, dust_density_of_voltage mean),
                  (4, h)]
             \<and> - 7.542 \<le> h \<and> h \<le> 153.438"
      using r b
      by (simp add: Let_def temp_adc_val_word hsm_humidity_of_voltage_def)
  qed
  have start: "fst (main_startup app_init e0) = None \<longrightarrow>
            (let a0 = fst (main_loop 1 (fst (snd (main_startup app_init e0)))
                                       (snd (snd (main_startup app_init e0))))
             in state_index a0 = START_CONV \<and> sen_count a0 = 0
              \<and> ds18b20_addr a0 =
                  [snd (uart_ow_rom_search_ret e0 0), snd (uart_ow_rom_search_ret e0 1)])"
  proof
    assume "fst (main_startup app_init e0) = None"
    note s = main_startup_enumeration [OF this]
    have "main_loop 1 (fst (snd (main_startup app_init e0))) (snd (snd (main_startup app_init e0))) =
          main_loop (Suc 0) (fst (snd (main_startup app_init e0)))
            (snd (snd (main_startup app_init e0)))"
      by simp
    then show "let a0 = fst (main_loop 1 (fst (snd (main_startup app_init e0)))
                                       (snd (snd (main_startup app_init e0))))
             in state_index a0 = START_CONV \<and> sen_count a0 = 0
              \<and> ds18b20_addr a0 =
                  [snd (uart_ow_rom_search_ret e0 0), snd (uart_ow_rom_search_ret e0 1)]"
      using s by (simp add: Let_def main_loop_Suc case_NONE_def del: One_nat_def)
  qed
  show ?thesis
    using ids rows start by blast
qed

text \<open>
  The theorem for two cycles of an environment whose bus delivers the frame of 25
  degrees for the first probe and the frame of -55 degrees for the second, with the
  address table that start-up builds in the example environment.
\<close>

theorem acquisition_cycles_sensor_ids_witness:
  "map fst (sensor_data (snd (main_loop 18
      (app_init\<lparr>state_index := START_CONV,
                 ds18b20_addr := [[0x28, 0, 0, 0, 0, 0, 0, 0], [0x28, 1, 0, 0, 0, 0, 0, 0]]\<rparr>)
      ((example_env frame_0190)
         \<lparr>uart_ow_read_byte_ret :=
            (\<lambda>n. if even (n div 9) then frame_0190 ! (n mod 9) else frame_FC90 ! (n mod 9))\<rparr>))))
     = [1, 2, 3, 4, 1, 2, 3, 4]
   \<and> sensor_data (snd (main_loop 9
      (app_init\<lparr>state_index := START_CONV,
                 ds18b20_addr := [[0x28, 0, 0, 0, 0, 0, 0, 0], [0x28, 1, 0, 0, 0, 0, 0, 0]]\<rparr>)
      ((example_env frame_0190)
         \<lparr>uart_ow_read_byte_ret :=
            (\<lambda>n. if even (n div 9) then frame_0190 ! (n mod 9) else frame_FC90 ! (n mod 9))\<rparr>)))
     = [(1, 25.0), (2, - 55.0), (3, 0.6),
        (4, 1.253 * (2000 / 1023) * (2000 / 1023) + 25.931 * (2000 / 1023) - 7.542)]
   \<and> ow_commands (snd (main_loop 9
      (app_init\<lparr>state_index := START_CONV,
                 ds18b20_addr := [[0x28, 0, 0, 0, 0, 0, 0, 0], [0x28, 1, 0, 0, 0, 0, 0, 0]]\<rparr>)
      ((example_env frame_0190)
         \<lparr>uart_ow_read_byte_ret :=
            (\<lambda>n. if even (n div 9) then frame_0190 ! (n mod 9) else frame_FC90 ! (n mod 9))\<rparr>)))
     = [(CMD_START_TEMP_CONV, [0x28, 0, 0, 0, 0, 0, 0, 0]),
        (CMD_READ_SCRATCHPAD, [0x28, 0, 0, 0, 0, 0, 0, 0]),
        (CMD_START_TEMP_CONV, [0x28, 1, 0, 0, 0, 0, 0, 0]),
        (CMD_READ_SCRATCHPAD, [0x28, 1, 0, 0, 0, 0, 0, 0])]
   \<and> ds18b20_addr (fst (main_loop 1
        (fst (snd (main_startup app_init (example_env frame_0190))))
        (snd (snd (main_startup app_init (example_env frame_0190))))))
     = [[0x28, 0, 0, 0, 0, 0, 0, 0], [0x28, 1, 0, 0, 0, 0, 0, 0]]"
proof -
  define A where "A = app_init\<lparr>state_index := START_CONV,
                 ds18b20_addr := [[0x28, 0, 0, 0, 0, 0, 0, 0], [0x28, 1, 0, 0, 0, 0, 0, 0]]\<rparr>"
  define E where "E = (example_env frame_0190)
         \<lparr>uart_ow_read_byte_ret :=
            (\<lambda>n. if even (n div 9) then frame_0190 ! (n mod 9) else frame_FC90 ! (n mod 9))\<rparr>"
  have st: "state_index A = START_CONV" and sc: "sen_count A = 0"
    and addr: "ds18b20_addr A = [[0x28, 0, 0, 0, 0, 0, 0, 0], [0x28, 1, 0, 0, 0, 0, 0, 0]]"
    by (simp_all add: A_def app_init_def)
  have crc: "\<forall>i<2 * 2. uart_ow_crc8 E (map (\<lambda>j. uart_ow_read_byte_ret E (9 * i + j)) [0..<8]) =
                        uart_ow_read_byte_ret E (9 * i + 8)"
    by (simp add: all_less_4 E_def example_env_def example_crc8_def frame_0190_def
        frame_FC90_def frame_FEFF_def map_upt_8)
  have db: "\<forall>i<4 * 2. db_ret E i = DB_OK"
    by (simp add: E_def example_env_def)
  have hum: "\<forall>i<2. unat (hsm_aio_read_ret E i) \<le> 1023"
    by (simp add: E_def example_env_def)
  have start: "fst (main_startup app_init (example_env frame_0190)) = None"
    by (simp add: example_env_startup)
  note t = acquisition_cycles_sensor_ids [OF st sc crc db hum, of "example_env frame_0190"]
  have twice: "concat (replicate 2 [1, 2, 3, 4 :: uint8_t]) = [1, 2, 3, 4, 1, 2, 3, 4]"
    by (simp add: numeral_2_eq_2)
  have 1: "map fst (sensor_data (snd (main_loop 18 A E))) = [1, 2, 3, 4, 1, 2, 3, 4]"
    using t by (simp add: twice) (simp add: E_def example_env_def)
  have batch: "acc_dust_concentration (fst (dust_sample_loop 16
      (A\<lparr>dust_data_coll_err := 0, acc_dust_concentration := 0\<rparr>) E)) = 160"
    by (simp add: dust_sample_loop_numeral gp2y_read_dust_output_voltage_float_eq
        A_def E_def example_env_def app_init_def)
  have bytes: "uart_ow_read_byte_ret E 0 = 0x90" "uart_ow_read_byte_ret E (Suc 0) = 0x01"
    "uart_ow_read_byte_ret E 9 = 0x90" "uart_ow_read_byte_ret E 10 = 0xFC"
    "hsm_aio_read_ret E 0 = 400" "sensor_data E = []" "ow_commands E = []"
    by (simp_all add: E_def example_env_def frame_0190_def frame_FC90_def)
  have s0: "sint (word_of_int (uint (0x90 :: uint8_t) + 256 * uint (0x01 :: uint8_t)) :: int16_t)
            = 400"
    and s1: "sint (word_of_int (uint (0x90 :: uint8_t) + 256 * uint (0xFC :: uint8_t)) :: int16_t)
            = - 880"
    by simp_all
  have first: "0 < (2 :: nat)"
    by simp
  have 2: "sensor_data (snd (main_loop 9 A E)) =
             [(1, 25.0), (2, - 55.0), (3, 0.6),
              (4, 1.253 * (2000 / 1023) * (2000 / 1023) + 25.931 * (2000 / 1023) - 7.542)]"
    and 3: "ow_commands (snd (main_loop 9 A E)) =
             [(CMD_START_TEMP_CONV, [0x28, 0, 0, 0, 0, 0, 0, 0]),
              (CMD_READ_SCRATCHPAD, [0x28, 0, 0, 0, 0, 0, 0, 0]),
              (CMD_START_TEMP_CONV, [0x28, 1, 0, 0, 0, 0, 0, 0]),
              (CMD_READ_SCRATCHPAD, [0x28, 1, 0, 0, 0, 0, 0, 0])]"
    using t [THEN conjunct2, THEN conjunct2, THEN conjunct2, THEN conjunct1, rule_format, OF first]
    by (simp_all add: Let_def batch bytes s0 s1 addr dust_density_of_voltage_def)
  have 4: "ds18b20_addr (fst (main_loop 1
        (fst (snd (main_startup app_init (example_env frame_0190))))
        (snd (snd (main_startup app_init (example_env frame_0190))))))
     = [[0x28, 0, 0, 0, 0, 0, 0, 0], [0x28, 1, 0, 0, 0, 0, 0, 0]]"
    using t start by (simp add: Let_def) (simp add: example_env_def)
  show ?thesis
    using 1 2 3 4 unfolding A_def E_def by blast
qed

end
